theory Spec2Isabelle
  imports Main
begin

section \<open>Values of the Go runtime and of the client libraries\<close>

text \<open>
  A \<open>time.Time\<close> is modelled by its instant, a count of nanoseconds since the Unix
  epoch; a \<open>time.Duration\<close> is an int64 count of nanoseconds. The identifiers of the
  remote platform are int64 values on which the program does no arithmetic: they are
  modelled as integers and only rendered as decimal text.
\<close>

type_synonym Time = int
type_synonym Duration = int

definition maxDuration :: Duration where
  "maxDuration = 2 ^ 63 - 1"

definition minDuration :: Duration where
  "minDuration = - (2 ^ 63)"

definition wrap64 :: "int \<Rightarrow> int" where
  "wrap64 x = (x + 2 ^ 63) mod 2 ^ 64 - 2 ^ 63"

text \<open>
  \<open>t.Sub(u)\<close> of the standard library, for times without a monotonic clock
  reading (as times parsed from text are): the difference is computed in int64
  arithmetic, and when adding it back to \<open>u\<close> does not give \<open>t\<close> the result is the
  smallest or the largest duration.
\<close>

definition time_Sub :: "Time \<Rightarrow> Time \<Rightarrow> Duration" where
  "time_Sub t u =
     (let d = wrap64 (t - u)
      in if u + d = t then d
         else if t < u then minDuration
         else maxDuration)"

datatype go_error = GoError string

datatype Level = PanicLevel | FatalLevel | ErrorLevel | WarnLevel | InfoLevel | DebugLevel | TraceLevel

text \<open>
  A logrus entry carries its data fields; a written log line has a level, the fields
  of the entry it was written through, and the message.
\<close>

type_synonym Entry = "string \<rightharpoonup> string"

datatype LogLine = LogLine Level Entry string

definition WithField :: "string \<Rightarrow> string \<Rightarrow> Entry \<Rightarrow> Entry" where
  "WithField k v entry = entry(k \<mapsto> v)"

fun error_text :: "go_error \<Rightarrow> string" where
  "error_text (GoError s) = s"

definition entry_Error :: "Entry \<Rightarrow> go_error \<Rightarrow> LogLine" where
  "entry_Error entry err = LogLine ErrorLevel entry (error_text err)"

subsection \<open>Decimal rendering\<close>

text \<open>
  Modelled from the spec: \<open>int64ToString\<close> is a helper of the repository that is not
  among the sources; it is taken to render an int64 in decimal, as the label values
  of the exposition are.
\<close>

definition digit_char :: "nat \<Rightarrow> char" where
  "digit_char n = char_of (48 + n)"

fun decimal :: "nat \<Rightarrow> string" where
  "decimal n = (if n < 10 then [digit_char n] else decimal (n div 10) @ [digit_char (n mod 10)])"

declare decimal.simps [simp del]

definition int64ToString :: "int \<Rightarrow> string" where
  "int64ToString v = (if v < 0 then CHR ''-'' # decimal (nat (- v)) else decimal (nat v))"

text \<open>Reading a decimal rendering back: the number that a string of digits stands for.\<close>

definition decimal_value :: "string \<Rightarrow> nat" where
  "decimal_value s = foldl (\<lambda>a c. 10 * a + (of_char c - 48)) 0 s"

subsection \<open>Metric batches and gauge vectors\<close>

text \<open>
  A label set is written as the source writes it, name by name. A batch
  (\<open>MetricList\<close> of the common library) records the samples handed to it, in order:
  an info sample (gauge value 1), a time, or a duration. The conversion of a time or a
  duration to the float64 of the gauge is done by the library and is not modelled.
  A gauge vector maps label sets to the value last set for them.
\<close>

type_synonym Labels = "(string \<times> string) list"

datatype Sample = Info | TimeOf Time | DurationOf Duration

type_synonym MetricList = "(Labels \<times> Sample) list"

type_synonym GaugeVec = "Labels \<rightharpoonup> Sample"

definition NewMetricsList :: MetricList where
  "NewMetricsList = []"

definition AddInfo :: "Labels \<Rightarrow> MetricList \<Rightarrow> MetricList" where
  "AddInfo ls m = m @ [(ls, Info)]"

definition AddTime :: "Labels \<Rightarrow> Time \<Rightarrow> MetricList \<Rightarrow> MetricList" where
  "AddTime ls t m = m @ [(ls, TimeOf t)]"

definition AddDuration :: "Labels \<Rightarrow> Duration \<Rightarrow> MetricList \<Rightarrow> MetricList" where
  "AddDuration ls d m = m @ [(ls, DurationOf d)]"

fun GaugeSet :: "MetricList \<Rightarrow> GaugeVec \<Rightarrow> GaugeVec" where
  "GaugeSet [] g = g"
| "GaugeSet (row # rows) g = GaugeSet rows (g(fst row \<mapsto> snd row))"

section \<open>The remote platform's records\<close>

text \<open>
  The records of the API client package, with the fields the Deployment collector
  reads. The results of the record's methods \<open>ApprovedBy()\<close>, \<open>QueuedOnTime()\<close>,
  \<open>StartedOnTime()\<close> and \<open>CompletedOnTime()\<close> are fields of the model: a time that
  is absent is \<open>None\<close> (the nil pointer of the source).
\<close>

record Project =
  Project_Id :: string

record ReleaseDefinition =
  ReleaseDefinition_Id :: int
  ReleaseDefinition_Name :: string

record Release =
  Release_Id :: int
  Release_Name :: string

record IdentifyRef =
  DisplayName :: string

record ReleaseEnvironment =
  ReleaseEnvironment_Id :: int
  ReleaseEnvironment_Name :: string

record Deployment =
  Deployment_Id :: int
  Deployment_Name :: string
  Deployment_Release :: Release
  Deployment_RequestedBy :: IdentifyRef
  DeploymentStatus :: string
  OperationStatus :: string
  Reason :: string
  Attempt :: int
  Deployment_ReleaseEnvironment :: ReleaseEnvironment
  ApprovedBy :: string
  QueuedOnTime :: "Time option"
  StartedOnTime :: "Time option"
  CompletedOnTime :: "Time option"

text \<open>
  The API client, as the collector sees it: each listing either fails with an error
  or returns its records.
\<close>

record AzureDevopsClient =
  ListReleaseDefinitions :: "string \<Rightarrow> go_error + ReleaseDefinition list"
  ListReleaseDeployments :: "string \<Rightarrow> int \<Rightarrow> go_error + Deployment list"

section \<open>The Deployment collector\<close>

text \<open>
  The plug-in owns two gauge vectors, \<open>azure_devops_deployment_info\<close> and
  \<open>azure_devops_deployment_status\<close>. \<open>Setup\<close> creates and registers both, empty;
  \<open>Reset\<close> clears both.
\<close>

record MetricsCollectorDeployment =
  prometheus_deployment :: GaugeVec
  prometheus_deploymentStatus :: GaugeVec

definition Setup :: MetricsCollectorDeployment where
  "Setup = \<lparr>prometheus_deployment = Map.empty, prometheus_deploymentStatus = Map.empty\<rparr>"

definition Reset :: "MetricsCollectorDeployment \<Rightarrow> MetricsCollectorDeployment" where
  "Reset m = m\<lparr>prometheus_deployment := Map.empty, prometheus_deploymentStatus := Map.empty\<rparr>"

text \<open>
  What a call of \<open>Collect\<close> can touch: the plug-in's gauge vectors, the log, and the
  callback channel, on which it queues closures for the apply phase. A queued closure
  is a function on the plug-in's gauge vectors.
\<close>

record collector_state =
  prometheus :: MetricsCollectorDeployment
  logged :: "LogLine list"
  callback :: "(MetricsCollectorDeployment \<Rightarrow> MetricsCollectorDeployment) list"

definition deployment_labels :: "Project \<Rightarrow> ReleaseDefinition \<Rightarrow> Deployment \<Rightarrow> Labels" where
  "deployment_labels project releaseDefinition deployment =
     [(''projectID'', Project_Id project),
      (''deploymentID'', int64ToString (Deployment_Id deployment)),
      (''releaseID'', int64ToString (Release_Id (Deployment_Release deployment))),
      (''releaseName'', Release_Name (Deployment_Release deployment)),
      (''releaseDefinitionID'', int64ToString (ReleaseDefinition_Id releaseDefinition)),
      (''requestedBy'', DisplayName (Deployment_RequestedBy deployment)),
      (''deploymentName'', Deployment_Name deployment),
      (''deploymentStatus'', DeploymentStatus deployment),
      (''operationStatus'', OperationStatus deployment),
      (''reason'', Reason deployment),
      (''attempt'', int64ToString (Attempt deployment)),
      (''environmentId'', int64ToString (ReleaseEnvironment_Id (Deployment_ReleaseEnvironment deployment))),
      (''environmentName'', ReleaseEnvironment_Name (Deployment_ReleaseEnvironment deployment)),
      (''approvedBy'', ApprovedBy deployment)]"

definition status_labels :: "Project \<Rightarrow> Deployment \<Rightarrow> string \<Rightarrow> Labels" where
  "status_labels project deployment ty =
     [(''projectID'', Project_Id project),
      (''deploymentID'', int64ToString (Deployment_Id deployment)),
      (''type'', ty)]"

text \<open>The body of the inner loop: one deployment record, added to the two batches.\<close>

definition deployment_body ::
  "Project \<Rightarrow> ReleaseDefinition \<Rightarrow> Deployment \<Rightarrow> MetricList \<times> MetricList \<Rightarrow> MetricList \<times> MetricList" where
  "deployment_body project releaseDefinition deployment batches =
     (let deploymentMetric = AddInfo (deployment_labels project releaseDefinition deployment) (fst batches);
          queuedOn = QueuedOnTime deployment;
          startedOn = StartedOnTime deployment;
          completedOn = CompletedOnTime deployment;
          sm0 = snd batches;
          sm1 = (case queuedOn of
                   Some q \<Rightarrow> AddTime (status_labels project deployment ''queued'') q sm0
                 | None \<Rightarrow> sm0);
          sm2 = (case startedOn of
                   Some s \<Rightarrow> AddTime (status_labels project deployment ''started'') s sm1
                 | None \<Rightarrow> sm1);
          sm3 = (case completedOn of
                   Some c \<Rightarrow> AddTime (status_labels project deployment ''finished'') c sm2
                 | None \<Rightarrow> sm2);
          sm4 = (case completedOn of
                   Some c \<Rightarrow>
                     (case startedOn of
                        Some s \<Rightarrow> AddDuration (status_labels project deployment ''jobDuration'') (time_Sub c s) sm3
                      | None \<Rightarrow> sm3)
                 | None \<Rightarrow> sm3)
      in (deploymentMetric, sm4))"

text \<open>The status samples of one record: what the body adds to an empty status batch.\<close>

definition status_samples :: "Project \<Rightarrow> ReleaseDefinition \<Rightarrow> Deployment \<Rightarrow> MetricList" where
  "status_samples project releaseDefinition deployment =
     snd (deployment_body project releaseDefinition deployment (NewMetricsList, NewMetricsList))"

fun deployment_loop ::
  "Project \<Rightarrow> ReleaseDefinition \<Rightarrow> Deployment list \<Rightarrow> MetricList \<times> MetricList \<Rightarrow> MetricList \<times> MetricList" where
  "deployment_loop project releaseDefinition [] batches = batches"
| "deployment_loop project releaseDefinition (deployment # rest) batches =
     deployment_loop project releaseDefinition rest
       (deployment_body project releaseDefinition deployment batches)"

text \<open>
  The outer loop over the release definitions. A failed listing of deployments is
  logged through the logger that carries the release definition's name, and ends the
  call: the result is then the log line, and the batches are dropped.
\<close>

fun definition_loop ::
  "AzureDevopsClient \<Rightarrow> Entry \<Rightarrow> Project \<Rightarrow> ReleaseDefinition list \<Rightarrow> MetricList \<times> MetricList
     \<Rightarrow> LogLine + MetricList \<times> MetricList" where
  "definition_loop client logger project [] batches = Inr batches"
| "definition_loop client logger project (releaseDefinition # rest) batches =
     (let contextLogger = WithField ''releaseDefinition'' (ReleaseDefinition_Name releaseDefinition) logger
      in case ListReleaseDeployments client (Project_Id project) (ReleaseDefinition_Id releaseDefinition) of
           Inl err \<Rightarrow> Inl (entry_Error contextLogger err)
         | Inr deploymentList \<Rightarrow>
             definition_loop client logger project rest
               (deployment_loop project releaseDefinition deploymentList batches))"

text \<open>
  The first part of \<open>Collect\<close>: the release definitions are listed and the loops
  run. The result is the line logged by a failed listing, or the two batches.
\<close>

definition collect_batches ::
  "AzureDevopsClient \<Rightarrow> Entry \<Rightarrow> Project \<Rightarrow> LogLine + MetricList \<times> MetricList" where
  "collect_batches client logger project =
     (case ListReleaseDefinitions client (Project_Id project) of
        Inl err \<Rightarrow> Inl (entry_Error logger err)
      | Inr list \<Rightarrow> definition_loop client logger project list (NewMetricsList, NewMetricsList))"

text \<open>The closure that \<open>Collect\<close> queues: both batches are set on the plug-in's gauge vectors.\<close>

definition apply_batches :: "MetricList \<Rightarrow> MetricList \<Rightarrow> MetricsCollectorDeployment \<Rightarrow> MetricsCollectorDeployment" where
  "apply_batches deploymentMetric deploymentStatusMetric m =
     m\<lparr>prometheus_deployment := GaugeSet deploymentMetric (prometheus_deployment m),
       prometheus_deploymentStatus := GaugeSet deploymentStatusMetric (prometheus_deploymentStatus m)\<rparr>"

text \<open>
  \<open>Collect\<close> of the plug-in, for one project (the name \<open>Collect\<close> alone is the set
  comprehension of HOL): after a failed listing the error has been logged and the call
  returns; otherwise the closure is sent on the callback channel.
\<close>

definition Collect_project :: "AzureDevopsClient \<Rightarrow> Entry \<Rightarrow> Project \<Rightarrow> collector_state \<Rightarrow> collector_state" where
  "Collect_project client logger project st =
     (case collect_batches client logger project of
        Inl line \<Rightarrow> st\<lparr>logged := logged st @ [line]\<rparr>
      | Inr batches \<Rightarrow> st\<lparr>callback := callback st @ [apply_batches (fst batches) (snd batches)]\<rparr>)"

section \<open>The collector cycle\<close>

text \<open>
  Modelled from the spec: the collector base, which runs a plug-in over the discovered
  projects, is not among the sources. Section 4.3 of the specification gives its cycle:
  one task per resource invokes the plug-in's collection logic, which pushes zero or
  more apply commands onto one ordered queue (step 3); after all tasks have finished, a
  single worker first invokes the plug-in's reset and then applies every queued command
  (step 4); and the cycle records its success and error counts (step 5; the duration
  of the cycle, which step 5 records too, is a matter of real time and is left out).
  The call of \<open>Collect\<close> returns nothing: a task counts as an error when its call has
  logged an error, and as a success otherwise. The tasks run concurrently; the list of
  projects given to \<open>collect_phase\<close> is the order in which their tasks reach the
  queue, which may be any order.
\<close>

record cycle_state =
  collector :: collector_state
  success_count :: nat
  error_count :: nat

definition run_task :: "AzureDevopsClient \<Rightarrow> Entry \<Rightarrow> Project \<Rightarrow> cycle_state \<Rightarrow> cycle_state" where
  "run_task client logger project cs =
     (let st = Collect_project client logger project (collector cs)
      in if logged st = logged (collector cs)
         then cs\<lparr>collector := st, success_count := success_count cs + 1\<rparr>
         else cs\<lparr>collector := st, error_count := error_count cs + 1\<rparr>)"

fun collect_phase :: "AzureDevopsClient \<Rightarrow> Entry \<Rightarrow> Project list \<Rightarrow> cycle_state \<Rightarrow> cycle_state" where
  "collect_phase client logger [] cs = cs"
| "collect_phase client logger (project # rest) cs =
     collect_phase client logger rest (run_task client logger project cs)"

definition apply_phase :: "collector_state \<Rightarrow> collector_state" where
  "apply_phase st =
     st\<lparr>prometheus := foldl (\<lambda>m command. command m) (Reset (prometheus st)) (callback st),
        callback := []\<rparr>"

definition cycle :: "AzureDevopsClient \<Rightarrow> Entry \<Rightarrow> Project list \<Rightarrow> cycle_state \<Rightarrow> cycle_state" where
  "cycle client logger projects cs =
     (let collected = collect_phase client logger projects
                        (cs\<lparr>collector := (collector cs)\<lparr>callback := []\<rparr>\<rparr>)
      in collected\<lparr>collector := apply_phase (collector collected)\<rparr>)"

text \<open>The entries a gauge vector holds for one project: its label sets with that \<open>projectID\<close>.\<close>

definition entries :: "GaugeVec \<Rightarrow> string \<Rightarrow> Labels set" where
  "entries g projectID = {ls \<in> dom g. map_of ls ''projectID'' = Some projectID}"

text \<open>The rows of a batch all carry the \<open>projectID\<close> of one project.\<close>

definition of_project :: "Project \<Rightarrow> MetricList \<Rightarrow> bool" where
  "of_project p rows \<longleftrightarrow> (\<forall>row \<in> set rows. map_of (fst row) ''projectID'' = Some (Project_Id p))"

section \<open>A scenario\<close>

text \<open>
  Concrete records for the scenario of section 8 of the specification: three projects
  \<open>A\<close>, \<open>B\<close> and \<open>C\<close>; the API returns one release definition with two deployments
  for \<open>A\<close>, nothing for \<open>B\<close>, and an error for \<open>C\<close>. Before the cycle the plug-in's
  info vector holds one entry for \<open>C\<close>, from an earlier cycle.
\<close>

definition scenario_deployment :: "int \<Rightarrow> Time option \<Rightarrow> Time option \<Rightarrow> Deployment" where
  "scenario_deployment i started completed =
     \<lparr>Deployment_Id = i, Deployment_Name = ''Release-5'',
      Deployment_Release = \<lparr>Release_Id = 5, Release_Name = ''Release-5''\<rparr>,
      Deployment_RequestedBy = \<lparr>DisplayName = ''Ada''\<rparr>,
      DeploymentStatus = ''succeeded'', OperationStatus = ''Approved'', Reason = ''manual'',
      Attempt = 1,
      Deployment_ReleaseEnvironment = \<lparr>ReleaseEnvironment_Id = 3, ReleaseEnvironment_Name = ''production''\<rparr>,
      ApprovedBy = ''Grace'',
      QueuedOnTime = Some 1000, StartedOnTime = started, CompletedOnTime = completed\<rparr>"

definition scenario_definition :: ReleaseDefinition where
  "scenario_definition = \<lparr>ReleaseDefinition_Id = 1, ReleaseDefinition_Name = ''web''\<rparr>"

definition scenario_project :: "string \<Rightarrow> Project" where
  "scenario_project name = \<lparr>Project_Id = name\<rparr>"

definition scenario_client :: AzureDevopsClient where
  "scenario_client =
     \<lparr>ListReleaseDefinitions =
        (\<lambda>project. if project = ''A'' then Inr [scenario_definition]
                    else if project = ''B'' then Inr []
                    else Inl (GoError ''503 Service Unavailable'')),
      ListReleaseDeployments =
        (\<lambda>project releaseDefinition.
           if project = ''A'' \<and> releaseDefinition = 1
           then Inr [scenario_deployment 10 (Some 2000) (Some 5000), scenario_deployment 11 (Some 3000) None]
           else Inr [])\<rparr>"

definition scenario_state :: collector_state where
  "scenario_state =
     \<lparr>prometheus =
        \<lparr>prometheus_deployment =
           [deployment_labels (scenario_project ''C'') scenario_definition
              (scenario_deployment 7 None None) \<mapsto> Info],
         prometheus_deploymentStatus = Map.empty\<rparr>,
      logged = [], callback = []\<rparr>"

text \<open>The state of the cycle before it runs: four successes and one error have been counted.\<close>

definition scenario_cycle :: cycle_state where
  "scenario_cycle = \<lparr>collector = scenario_state, success_count = 4, error_count = 1\<rparr>"

text \<open>A client for which the listing of the deployments of the second release definition fails.\<close>

definition failing_client :: AzureDevopsClient where
  "failing_client =
     \<lparr>ListReleaseDefinitions =
        (\<lambda>project. Inr [scenario_definition,
                         \<lparr>ReleaseDefinition_Id = 2, ReleaseDefinition_Name = ''api''\<rparr>]),
      ListReleaseDeployments =
        (\<lambda>project releaseDefinition.
           if releaseDefinition = 1 then Inr [scenario_deployment 10 (Some 2000) (Some 5000)]
           else Inl (GoError ''timeout''))\<rparr>"

section \<open>Strings\<close>

text \<open>
  A Go string is a sequence of bytes, read as UTF-8. \<open>strings.Count(s, "@")\<close> counts
  the bytes equal to \<open>@\<close>. \<open>strings.TrimSpace\<close> removes the leading and then the
  trailing white space, as Unicode defines it: a white-space rune is in the string
  exactly where its UTF-8 encoding stands, and \<open>space_encodings\<close> lists the encodings
  of U+0009 to U+000D, U+0020, U+0085, U+00A0, U+1680, U+2000 to U+200A, U+2028,
  U+2029, U+202F, U+205F and U+3000.
\<close>

definition Count :: "string \<Rightarrow> char \<Rightarrow> nat" where
  "Count s c = length (filter (\<lambda>b. b = c) s)"

definition space_encodings :: "string list" where
  "space_encodings =
     [[CHR 0x09], [CHR 0x0A], [CHR 0x0B], [CHR 0x0C], [CHR 0x0D], [CHR 0x20],
      [CHR 0xC2, CHR 0x85], [CHR 0xC2, CHR 0xA0],
      [CHR 0xE1, CHR 0x9A, CHR 0x80],
      [CHR 0xE2, CHR 0x80, CHR 0x80], [CHR 0xE2, CHR 0x80, CHR 0x81], [CHR 0xE2, CHR 0x80, CHR 0x82],
      [CHR 0xE2, CHR 0x80, CHR 0x83], [CHR 0xE2, CHR 0x80, CHR 0x84], [CHR 0xE2, CHR 0x80, CHR 0x85],
      [CHR 0xE2, CHR 0x80, CHR 0x86], [CHR 0xE2, CHR 0x80, CHR 0x87], [CHR 0xE2, CHR 0x80, CHR 0x88],
      [CHR 0xE2, CHR 0x80, CHR 0x89], [CHR 0xE2, CHR 0x80, CHR 0x8A],
      [CHR 0xE2, CHR 0x80, CHR 0xA8], [CHR 0xE2, CHR 0x80, CHR 0xA9], [CHR 0xE2, CHR 0x80, CHR 0xAF],
      [CHR 0xE2, CHR 0x81, CHR 0x9F],
      [CHR 0xE3, CHR 0x80, CHR 0x80]]"

text \<open>The width in bytes of the white-space rune at the start of a string; 0 when there is none.\<close>

definition leading_space :: "string \<Rightarrow> nat" where
  "leading_space s =
     (case find (\<lambda>e. take (length e) s = e) space_encodings of
        Some e \<Rightarrow> length e
      | None \<Rightarrow> 0)"

function TrimLeftFunc :: "string \<Rightarrow> string" where
  "TrimLeftFunc s = (if leading_space s = 0 then s else TrimLeftFunc (drop (leading_space s) s))"
  by pat_completeness auto
termination
proof (relation "measure length")
  fix s :: string
  assume "leading_space s \<noteq> 0"
  then obtain e where e: "find (\<lambda>e. take (length e) s = e) space_encodings = Some e"
    and w: "leading_space s = length e"
    by (auto simp: leading_space_def split: option.splits)
  from e have "e \<in> set space_encodings" and "take (length e) s = e"
    by (auto simp: find_Some_iff)
  moreover have "[] \<notin> set space_encodings"
    by (simp add: space_encodings_def)
  ultimately have "s \<noteq> []" and "0 < length e"
    by auto
  with w show "(drop (leading_space s) s, s) \<in> measure length"
    by simp
qed simp

declare TrimLeftFunc.simps [simp del]

text \<open>At the end of the string the encodings are matched backwards.\<close>

definition trailing_space :: "string \<Rightarrow> nat" where
  "trailing_space s =
     (case find (\<lambda>e. take (length e) (rev s) = rev e) space_encodings of
        Some e \<Rightarrow> length e
      | None \<Rightarrow> 0)"

function TrimRightFunc :: "string \<Rightarrow> string" where
  "TrimRightFunc s =
     (if trailing_space s = 0 then s else TrimRightFunc (take (length s - trailing_space s) s))"
  by pat_completeness auto
termination
proof (relation "measure length")
  fix s :: string
  assume "trailing_space s \<noteq> 0"
  then obtain e where e: "find (\<lambda>e. take (length e) (rev s) = rev e) space_encodings = Some e"
    and w: "trailing_space s = length e"
    by (auto simp: trailing_space_def split: option.splits)
  from e have "e \<in> set space_encodings" and "take (length e) (rev s) = rev e"
    by (auto simp: find_Some_iff)
  moreover have "[] \<notin> set space_encodings"
    by (simp add: space_encodings_def)
  ultimately have "s \<noteq> []" and "0 < length e"
    by auto
  with w show "(take (length s - trailing_space s) s, s) \<in> measure length"
    by simp
qed simp

declare TrimRightFunc.simps [simp del]

definition TrimSpace :: "string \<Rightarrow> string" where
  "TrimSpace s = TrimRightFunc (TrimLeftFunc s)"

section \<open>Startup: the options and the process\<close>

text \<open>
  The options record (\<open>config.Opts\<close>) is not among the sources; the model has the
  fields that the startup code reads or writes, with their types as the code uses
  them: an option behind a pointer is \<open>None\<close> when the pointer is nil. A list option
  that is nil is the empty list (the code only ranges over it).
\<close>

record Opts =
  Logger_Verbose :: bool
  Logger_Debug :: bool
  Logger_LogJson :: bool
  AzureDevops_AccessToken :: string
  AzureDevops_AccessTokenFile :: "string option"
  AzureDevops_QueriesWithProjects :: "string list"
  AzureDevops_AgentPoolIdList :: "int list"
  Scrape_Time :: Duration
  Scrape_TimeProjects :: "Duration option"
  Scrape_TimeRepository :: "Duration option"
  Scrape_TimePullRequest :: "Duration option"
  Scrape_TimeBuild :: "Duration option"
  Scrape_TimeRelease :: "Duration option"
  Scrape_TimeDeployment :: "Duration option"
  Scrape_TimeStats :: "Duration option"
  Scrape_TimeResourceUsage :: "Duration option"
  Scrape_TimeQuery :: "Duration option"
  Scrape_TimeLive :: "Duration option"
  Stats_SummaryMaxAge :: "Duration option"

subsection \<open>The collectors\<close>

text \<open>
  Modelled from the spec: the collector types (\<open>CollectorGeneral\<close>, \<open>CollectorProject\<close>,
  \<open>CollectorAgentPool\<close>, \<open>CollectorQuery\<close>) with their constructors, \<open>SetScrapeTime\<close>
  and \<open>Run\<close> are not among the sources. By sections 3 and 4.3 of the specification a
  collector is bound to one plug-in, has its own scrape interval, and once started owns
  a periodic timer; the model keeps the name, the plug-in, the interval and whether the
  collector has been started. \<open>Processor_X\<close> stands for the plug-in \<open>MetricsCollectorX\<close>.
\<close>

datatype Processor =
  Processor_General | Processor_Project | Processor_AgentPool | Processor_LatestBuild
  | Processor_Repository | Processor_PullRequest | Processor_Build | Processor_Release
  | Processor_Deployment | Processor_Stats | Processor_ResourceUsage | Processor_Query

record Collector =
  collector_Name :: string
  collector_Processor :: Processor
  scrapeTime :: "Duration option"
  running :: bool

record CollectorAgentPool = Collector +
  AgentPoolIdList :: "int list"

record CollectorQuery = Collector +
  QueryList :: "string list"

definition NewCollectorGeneral :: "string \<Rightarrow> Processor \<Rightarrow> Collector" where
  "NewCollectorGeneral name processor =
     \<lparr>collector_Name = name, collector_Processor = processor, scrapeTime = None, running = False\<rparr>"

definition NewCollectorProject :: "string \<Rightarrow> Processor \<Rightarrow> Collector" where
  "NewCollectorProject name processor =
     \<lparr>collector_Name = name, collector_Processor = processor, scrapeTime = None, running = False\<rparr>"

definition NewCollectorAgentPool :: "string \<Rightarrow> Processor \<Rightarrow> CollectorAgentPool" where
  "NewCollectorAgentPool name processor =
     \<lparr>collector_Name = name, collector_Processor = processor, scrapeTime = None, running = False,
      AgentPoolIdList = []\<rparr>"

definition NewCollectorQuery :: "string \<Rightarrow> Processor \<Rightarrow> CollectorQuery" where
  "NewCollectorQuery name processor =
     \<lparr>collector_Name = name, collector_Processor = processor, scrapeTime = None, running = False,
      QueryList = []\<rparr>"

definition SetScrapeTime :: "Duration \<Rightarrow> 'a Collector_scheme \<Rightarrow> 'a Collector_scheme" where
  "SetScrapeTime t c = c\<lparr>scrapeTime := Some t\<rparr>"

definition Run :: "'a Collector_scheme \<Rightarrow> 'a Collector_scheme" where
  "Run c = c\<lparr>running := True\<rparr>"

text \<open>The settings of the global logger that startup changes.\<close>

datatype Formatter = DefaultFormatter | TextFormatter_CallerPrettyfier | JSONFormatter_CallerPrettyfier

record LoggerSettings =
  logger_Level :: Level
  logger_ReportCaller :: bool
  logger_Formatter :: Formatter

text \<open>
  The error of the argument parser: an error of the flags library with its type, or
  any other error. \<open>errors.As\<close> finds the library's error exactly in the first case.
\<close>

datatype ErrorType =
  ErrUnknown | ErrExpectedArgument | ErrUnknownFlag | ErrUnknownGroup | ErrMarshal | ErrHelp
  | ErrNoArgumentForBool | ErrRequired | ErrShortNameTooLong | ErrDuplicatedFlag | ErrTag
  | ErrCommandRequired | ErrUnknownCommand | ErrInvalidChoice | ErrInvalidTag

datatype parse_error = FlagsError ErrorType string | OtherError string

text \<open>
  The surroundings of the process: what \<open>argparser.Parse()\<close> makes of the command
  line and the environment (the options it fills in, and its error), the usage text
  that \<open>argparser.WriteHelp\<close> writes, the file system as \<open>os.ReadFile\<close> sees it,
  and the environment variables.
\<close>

record Env =
  Parse_opts :: Opts
  Parse_err :: "parse_error option"
  WriteHelp :: string
  ReadFile :: "string \<Rightarrow> go_error + string"
  Getenv :: "string \<Rightarrow> string"

text \<open>
  The state of the process during startup: the options, the logger's settings, what was
  printed and logged, and the four global maps of collectors.
\<close>

record Process =
  opts :: Opts
  log_settings :: LoggerSettings
  stdout :: "string list"
  log_lines :: "LogLine list"
  collectorGeneralList :: "string \<rightharpoonup> Collector"
  collectorProjectList :: "string \<rightharpoonup> Collector"
  collectorAgentPoolList :: "string \<rightharpoonup> CollectorAgentPool"
  collectorQueryList :: "string \<rightharpoonup> CollectorQuery"

text \<open>
  A startup step returns, or ends the process: \<open>os.Exit\<close> with a status, or a panic
  with its message (\<open>log.Panic\<close>, \<open>log.Panicf\<close>).
\<close>

datatype outcome = Exited int Process | Panicked string Process | Returned Process

fun and_then :: "outcome \<Rightarrow> (Process \<Rightarrow> outcome) \<Rightarrow> outcome" where
  "and_then (Returned p) f = f p"
| "and_then (Exited status p) f = Exited status p"
| "and_then (Panicked msg p) f = Panicked msg p"

definition log_Info :: "string \<Rightarrow> Process \<Rightarrow> Process" where
  "log_Info msg p = p\<lparr>log_lines := log_lines p @ [LogLine InfoLevel Map.empty msg]\<rparr>"

subsection \<open>initArgparser\<close>

fun is_ErrHelp :: "parse_error \<Rightarrow> bool" where
  "is_ErrHelp (FlagsError ty msg) = (ty = ErrHelp)"
| "is_ErrHelp (OtherError msg) = False"

definition parse_arguments :: "Env \<Rightarrow> Process \<Rightarrow> outcome" where
  "parse_arguments env p =
     (let p = p\<lparr>opts := Parse_opts env\<rparr>
      in case Parse_err env of
           Some err \<Rightarrow>
             (if is_ErrHelp err then Exited 0 p
              else Exited 1 (p\<lparr>stdout := stdout p @ [[CHR 0x0A], WriteHelp env]\<rparr>))
         | None \<Rightarrow> Returned p)"

definition configure_logger :: "Process \<Rightarrow> Process" where
  "configure_logger p =
     (let l = log_settings p;
          l = (if Logger_Verbose (opts p) then l\<lparr>logger_Level := DebugLevel\<rparr> else l);
          l = (if Logger_Debug (opts p)
               then l\<lparr>logger_ReportCaller := True, logger_Level := TraceLevel,
                      logger_Formatter := TextFormatter_CallerPrettyfier\<rparr>
               else l);
          l = (if Logger_LogJson (opts p)
               then l\<lparr>logger_ReportCaller := True, logger_Formatter := JSONFormatter_CallerPrettyfier\<rparr>
               else l)
      in p\<lparr>log_settings := l\<rparr>)"

definition load_access_token :: "Env \<Rightarrow> Process \<Rightarrow> outcome" where
  "load_access_token env p =
     (case AzureDevops_AccessTokenFile (opts p) of
        None \<Rightarrow> Returned p
      | Some file \<Rightarrow>
          (if 0 < length file then
             (let p = log_Info (''reading access token from file '' @ [CHR 0x22] @ file @ [CHR 0x22]) p
              in case ReadFile env file of
                   Inr val \<Rightarrow> Returned (p\<lparr>opts := (opts p)\<lparr>AzureDevops_AccessToken := TrimSpace val\<rparr>\<rparr>)
                 | Inl err \<Rightarrow>
                     Panicked (''unable to read access token file '' @ [CHR 0x22] @ file @ [CHR 0x22]
                                 @ '': '' @ error_text err) p)
           else Returned p))"

definition require_access_token :: "Process \<Rightarrow> outcome" where
  "require_access_token p =
     (if length (AzureDevops_AccessToken (opts p)) = 0
      then Panicked ''no Azure DevOps access token specified'' p
      else Returned p)"

text \<open>
  The line that \<open>fmt.Println\<close> prints for a malformed query descriptor: its operands
  separated by spaces, and a newline.
\<close>

definition malformed_query_line :: "string \<Rightarrow> string" where
  "malformed_query_line query =
     ''Query path '' @ [CHR 0x27] @ '' '' @ query @ '' '' @ [CHR 0x27]
       @ '' is malformed; should be '' @ [CHR 0x27] @ ''<query UUID>@<project UUID>'' @ [CHR 0x27]
       @ [CHR 0x0A]"

text \<open>The loop over the query descriptors, with its flag \<open>queryError\<close> and the lines printed.\<close>

fun check_queries :: "string list \<Rightarrow> bool \<times> string list \<Rightarrow> bool \<times> string list" where
  "check_queries [] acc = acc"
| "check_queries (query # rest) (queryError, out) =
     (if Count query (CHR ''@'') \<noteq> 1
      then check_queries rest (True, out @ [malformed_query_line query])
      else check_queries rest (queryError, out))"

definition validate_queries :: "Process \<Rightarrow> outcome" where
  "validate_queries p =
     (let r = check_queries (AzureDevops_QueriesWithProjects (opts p)) (False, stdout p)
      in if fst r then Exited 1 (p\<lparr>stdout := snd r\<rparr>) else Returned (p\<lparr>stdout := snd r\<rparr>))"

text \<open>
  The fallback of the scrape intervals. The source stores the address of the default
  interval in an option that is nil; nothing in the sources writes the default interval
  afterwards, so the model stores its value.
\<close>

definition default_scrape_times :: "Opts \<Rightarrow> Opts" where
  "default_scrape_times cfg =
     (let cfg = (if Scrape_TimeProjects cfg = None then cfg\<lparr>Scrape_TimeProjects := Some (Scrape_Time cfg)\<rparr> else cfg);
          cfg = (if Scrape_TimeRepository cfg = None then cfg\<lparr>Scrape_TimeRepository := Some (Scrape_Time cfg)\<rparr> else cfg);
          cfg = (if Scrape_TimePullRequest cfg = None then cfg\<lparr>Scrape_TimePullRequest := Some (Scrape_Time cfg)\<rparr> else cfg);
          cfg = (if Scrape_TimeBuild cfg = None then cfg\<lparr>Scrape_TimeBuild := Some (Scrape_Time cfg)\<rparr> else cfg);
          cfg = (if Scrape_TimeRelease cfg = None then cfg\<lparr>Scrape_TimeRelease := Some (Scrape_Time cfg)\<rparr> else cfg);
          cfg = (if Scrape_TimeDeployment cfg = None then cfg\<lparr>Scrape_TimeDeployment := Some (Scrape_Time cfg)\<rparr> else cfg);
          cfg = (if Scrape_TimeStats cfg = None then cfg\<lparr>Scrape_TimeStats := Some (Scrape_Time cfg)\<rparr> else cfg);
          cfg = (if Scrape_TimeResourceUsage cfg = None then cfg\<lparr>Scrape_TimeResourceUsage := Some (Scrape_Time cfg)\<rparr> else cfg);
          cfg = (if Stats_SummaryMaxAge cfg = None then cfg\<lparr>Stats_SummaryMaxAge := Scrape_TimeStats cfg\<rparr> else cfg);
          cfg = (if Scrape_TimeQuery cfg = None then cfg\<lparr>Scrape_TimeQuery := Some (Scrape_Time cfg)\<rparr> else cfg)
      in cfg)"

definition check_deprecated_env :: "Env \<Rightarrow> Process \<Rightarrow> outcome" where
  "check_deprecated_env env p =
     (if Getenv env ''AZURE_DEVOPS_FILTER_AGENTPOOL'' \<noteq> []
      then Panicked ''deprecated env var AZURE_DEVOPS_FILTER_AGENTPOOL detected, please use AZURE_DEVOPS_AGENTPOOL'' p
      else Returned p)"

text \<open>What follows the parsing of the arguments in \<open>initArgparser\<close>, and the whole of it.\<close>

definition after_parse :: "Env \<Rightarrow> Process \<Rightarrow> outcome" where
  "after_parse env p =
     and_then (and_then (and_then (and_then (load_access_token env (configure_logger p))
       require_access_token)
       validate_queries)
       (\<lambda>p. Returned (p\<lparr>opts := default_scrape_times (opts p)\<rparr>)))
       (check_deprecated_env env)"

definition initArgparser :: "Env \<Rightarrow> Process \<Rightarrow> outcome" where
  "initArgparser env p = and_then (parse_arguments env p) (after_parse env)"

subsection \<open>initMetricCollector\<close>

text \<open>
  \<open>d.Seconds() > 0\<close>: the seconds of a duration are the float64 sum of its whole
  seconds and of its remaining nanoseconds over \<open>1e9\<close>, two terms of the sign of the
  duration; the sum is positive exactly when the duration is.
\<close>

definition Seconds_positive :: "Duration \<Rightarrow> bool" where
  "Seconds_positive d \<longleftrightarrow> 0 < d"

definition nil_dereference :: string where
  "nil_dereference = ''runtime error: invalid memory address or nil pointer dereference''"

definition disabled_line :: "string \<Rightarrow> string" where
  "disabled_line collectorName = ''collector['' @ collectorName @ '']: disabled''"

text \<open>
  One block of \<open>initMetricCollector\<close>: the interval is read through its pointer; when
  its seconds are positive the collector is created and stored under its name,
  otherwise the collector is logged as disabled.
\<close>

definition collector_block :: "Duration option \<Rightarrow> string \<Rightarrow> (Duration \<Rightarrow> Process \<Rightarrow> Process) \<Rightarrow> Process \<Rightarrow> outcome" where
  "collector_block interval collectorName create p =
     (case interval of
        None \<Rightarrow> Panicked nil_dereference p
      | Some t \<Rightarrow>
          (if Seconds_positive t then Returned (create t p)
           else Returned (log_Info (disabled_line collectorName) p)))"

definition create_General :: "string \<Rightarrow> Processor \<Rightarrow> Duration \<Rightarrow> Process \<Rightarrow> Process" where
  "create_General collectorName processor t p =
     p\<lparr>collectorGeneralList := (collectorGeneralList p)
          (collectorName \<mapsto> SetScrapeTime t (NewCollectorGeneral collectorName processor))\<rparr>"

definition create_Project :: "string \<Rightarrow> Processor \<Rightarrow> Duration \<Rightarrow> Process \<Rightarrow> Process" where
  "create_Project collectorName processor t p =
     p\<lparr>collectorProjectList := (collectorProjectList p)
          (collectorName \<mapsto> SetScrapeTime t (NewCollectorProject collectorName processor))\<rparr>"

definition create_AgentPool :: "string \<Rightarrow> Processor \<Rightarrow> Duration \<Rightarrow> Process \<Rightarrow> Process" where
  "create_AgentPool collectorName processor t p =
     p\<lparr>collectorAgentPoolList := (collectorAgentPoolList p)
          (collectorName \<mapsto> SetScrapeTime t
             ((NewCollectorAgentPool collectorName processor)
                \<lparr>AgentPoolIdList := AzureDevops_AgentPoolIdList (opts p)\<rparr>))\<rparr>"

definition create_Query :: "string \<Rightarrow> Processor \<Rightarrow> Duration \<Rightarrow> Process \<Rightarrow> Process" where
  "create_Query collectorName processor t p =
     p\<lparr>collectorQueryList := (collectorQueryList p)
          (collectorName \<mapsto> SetScrapeTime t
             ((NewCollectorQuery collectorName processor)
                \<lparr>QueryList := AzureDevops_QueriesWithProjects (opts p)\<rparr>))\<rparr>"

text \<open>The twelve blocks, in the order of the source, each with the interval it reads.\<close>

definition collector_blocks :: "(Process \<Rightarrow> outcome) list" where
  "collector_blocks =
     [\<lambda>p. collector_block (Scrape_TimeLive (opts p)) ''General''
             (create_General ''General'' Processor_General) p,
      \<lambda>p. collector_block (Scrape_TimeLive (opts p)) ''Project''
             (create_Project ''Project'' Processor_Project) p,
      \<lambda>p. collector_block (Scrape_TimeLive (opts p)) ''AgentPool''
             (create_AgentPool ''AgentPool'' Processor_AgentPool) p,
      \<lambda>p. collector_block (Scrape_TimeLive (opts p)) ''LatestBuild''
             (create_Project ''LatestBuild'' Processor_LatestBuild) p,
      \<lambda>p. collector_block (Scrape_TimeRepository (opts p)) ''Repository''
             (create_Project ''Repository'' Processor_Repository) p,
      \<lambda>p. collector_block (Scrape_TimePullRequest (opts p)) ''PullRequest''
             (create_Project ''PullRequest'' Processor_PullRequest) p,
      \<lambda>p. collector_block (Scrape_TimeBuild (opts p)) ''Build''
             (create_Project ''Build'' Processor_Build) p,
      \<lambda>p. collector_block (Scrape_TimeRelease (opts p)) ''Release''
             (create_Project ''Release'' Processor_Release) p,
      \<lambda>p. collector_block (Scrape_TimeDeployment (opts p)) ''Deployment''
             (create_Project ''Deployment'' Processor_Deployment) p,
      \<lambda>p. collector_block (Scrape_TimeStats (opts p)) ''Stats''
             (create_Project ''Stats'' Processor_Stats) p,
      \<lambda>p. collector_block (Scrape_TimeResourceUsage (opts p)) ''ResourceUsage''
             (create_General ''ResourceUsage'' Processor_ResourceUsage) p,
      \<lambda>p. collector_block (Scrape_TimeQuery (opts p)) ''Query''
             (create_Query ''Query'' Processor_Query) p]"

text \<open>
  The four loops at the end start every collector that was stored. The order in
  which a Go map is ranged over is not fixed; starting one collector does not touch
  another, so the order does not show in the result.
\<close>

definition run_collectors :: "Process \<Rightarrow> Process" where
  "run_collectors p =
     p\<lparr>collectorGeneralList := map_option Run \<circ> collectorGeneralList p,
       collectorProjectList := map_option Run \<circ> collectorProjectList p,
       collectorAgentPoolList := map_option Run \<circ> collectorAgentPoolList p,
       collectorQueryList := map_option Run \<circ> collectorQueryList p\<rparr>"

definition initMetricCollector :: "Process \<Rightarrow> outcome" where
  "initMetricCollector p =
     and_then
       (foldl and_then
          (Returned (p\<lparr>collectorGeneralList := Map.empty, collectorProjectList := Map.empty,
                       collectorAgentPoolList := Map.empty, collectorQueryList := Map.empty\<rparr>))
          collector_blocks)
       (\<lambda>p. Returned (run_collectors p))"

text \<open>
  What the claim about the collectors expects of a collector with a given interval:
  with a positive interval it exists, carries that interval and has been started;
  otherwise it does not exist. And the line logged for a collector that is disabled.
\<close>

definition enabled :: "string \<Rightarrow> Processor \<Rightarrow> Duration \<Rightarrow> Collector option" where
  "enabled name processor t =
     (if 0 < t
      then Some \<lparr>collector_Name = name, collector_Processor = processor, scrapeTime = Some t,
                 running = True\<rparr>
      else None)"

definition disabled :: "string \<Rightarrow> Duration \<Rightarrow> LogLine list" where
  "disabled name t =
     (if 0 < t then [] else [LogLine InfoLevel Map.empty (''collector['' @ name @ '']: disabled'')])"

section \<open>The HTTP endpoints\<close>

text \<open>
  A response writer of the HTTP server, for one request: whether the header has been
  written and with which status, the body written so far, the method of the request,
  and the error of the connection when it cannot be written to. The first write of a
  body writes the header with status 200 when no header was written before; the body
  of a reply to a HEAD request is discarded by the server.
\<close>

record Request =
  Method :: string
  URL_Path :: string

record ResponseWriter =
  wroteHeader :: bool
  statusCode :: nat
  written :: string
  request_Method :: string
  conn_failure :: "go_error option"

definition WriteHeader :: "nat \<Rightarrow> ResponseWriter \<Rightarrow> ResponseWriter" where
  "WriteHeader code w = (if wroteHeader w then w else w\<lparr>wroteHeader := True, statusCode := code\<rparr>)"

definition Fprint :: "ResponseWriter \<Rightarrow> string \<Rightarrow> go_error option \<times> ResponseWriter" where
  "Fprint w s =
     (let w = WriteHeader 200 w
      in case conn_failure w of
           Some err \<Rightarrow> (Some err, w)
         | None \<Rightarrow> (None, if request_Method w = ''HEAD'' then w else w\<lparr>written := written w @ s\<rparr>))"

text \<open>The two handler functions of the source are the same: print \<open>Ok\<close>, log a failed write.\<close>

definition healthz :: "ResponseWriter \<Rightarrow> Request \<Rightarrow> LogLine list \<Rightarrow> ResponseWriter \<times> LogLine list" where
  "healthz w r lg =
     (case Fprint w ''Ok'' of
        (Some err, w') \<Rightarrow> (w', lg @ [entry_Error Map.empty err])
      | (None, w') \<Rightarrow> (w', lg))"

definition readyz :: "ResponseWriter \<Rightarrow> Request \<Rightarrow> LogLine list \<Rightarrow> ResponseWriter \<times> LogLine list" where
  "readyz w r lg =
     (case Fprint w ''Ok'' of
        (Some err, w') \<Rightarrow> (w', lg @ [entry_Error Map.empty err])
      | (None, w') \<Rightarrow> (w', lg))"

text \<open>
  The multiplexer of \<open>startHttpServer\<close> with its three patterns. The handler of
  \<open>/metrics\<close> belongs to the Prometheus client library: it is a parameter, and stands
  for everything a reply may depend on (the Registry, and through it the collectors
  and the remote backend). A path that is none of the three patterns is answered by
  the multiplexer itself; that reply is not modelled (\<open>None\<close>).
\<close>

definition ServeHTTP ::
  "(ResponseWriter \<Rightarrow> Request \<Rightarrow> ResponseWriter) \<Rightarrow> ResponseWriter \<Rightarrow> Request \<Rightarrow> LogLine list
     \<Rightarrow> (ResponseWriter \<times> LogLine list) option" where
  "ServeHTTP promhttp_Handler w r lg =
     (if URL_Path r = ''/healthz'' then Some (healthz w r lg)
      else if URL_Path r = ''/readyz'' then Some (readyz w r lg)
      else if URL_Path r = ''/metrics'' then Some (promhttp_Handler w r, lg)
      else None)"

text \<open>The writer that the server hands to a handler for a request.\<close>

definition new_response :: "Request \<Rightarrow> go_error option \<Rightarrow> ResponseWriter" where
  "new_response r failure =
     \<lparr>wroteHeader = False, statusCode = 0, written = [], request_Method = Method r,
      conn_failure = failure\<rparr>"

section \<open>A startup scenario\<close>

text \<open>
  Options as a command line could give them: the access token comes from a file, one
  query descriptor is configured, the default scrape interval is 30 minutes, the live
  interval is 30 seconds, the Deployment collector is switched off with an interval of
  zero, and the other intervals are not set.
\<close>

definition startup_opts :: Opts where
  "startup_opts =
     \<lparr>Logger_Verbose = False, Logger_Debug = False, Logger_LogJson = True,
      AzureDevops_AccessToken = [],
      AzureDevops_AccessTokenFile = Some ''/run/secrets/token'',
      AzureDevops_QueriesWithProjects = [''9f6a@2c1b''],
      AzureDevops_AgentPoolIdList = [7],
      Scrape_Time = 1800000000000,
      Scrape_TimeProjects = None, Scrape_TimeRepository = None, Scrape_TimePullRequest = None,
      Scrape_TimeBuild = Some 600000000000, Scrape_TimeRelease = None,
      Scrape_TimeDeployment = Some 0, Scrape_TimeStats = None,
      Scrape_TimeResourceUsage = None, Scrape_TimeQuery = None,
      Scrape_TimeLive = Some 30000000000,
      Stats_SummaryMaxAge = None\<rparr>"

definition startup_env :: Env where
  "startup_env =
     \<lparr>Parse_opts = startup_opts, Parse_err = None,
      WriteHelp = ''Usage: azure-devops-exporter [OPTIONS]'',
      ReadFile = (\<lambda>file. if file = ''/run/secrets/token''
                          then Inr ('' s3cr3t'' @ [CHR 0x0D, CHR 0x0A])
                          else Inl (GoError ''no such file or directory'')),
      Getenv = (\<lambda>name. [])\<rparr>"

definition startup_process :: Process where
  "startup_process =
     \<lparr>opts = startup_opts\<lparr>AzureDevops_AccessTokenFile := None, AzureDevops_QueriesWithProjects := [],
                             Scrape_TimeBuild := None, Scrape_TimeDeployment := None,
                             Scrape_TimeLive := None\<rparr>,
      log_settings = \<lparr>logger_Level = InfoLevel, logger_ReportCaller = False,
                      logger_Formatter = DefaultFormatter\<rparr>,
      stdout = [], log_lines = [],
      collectorGeneralList = Map.empty, collectorProjectList = Map.empty,
      collectorAgentPoolList = Map.empty, collectorQueryList = Map.empty\<rparr>"

section \<open>Properties of the Deployment collector\<close>

subsection \<open>Durations\<close>

lemma wrap64_range: "- (2 ^ 63) \<le> wrap64 x \<and> wrap64 x < 2 ^ 63"
proof -
  have "0 \<le> (x + 2 ^ 63) mod 2 ^ 64" and "(x + 2 ^ 63) mod 2 ^ 64 < (2 ^ 64 :: int)"
    by simp_all
  then show ?thesis
    unfolding wrap64_def by simp
qed

lemma wrap64_id: "- (2 ^ 63) \<le> x \<Longrightarrow> x < 2 ^ 63 \<Longrightarrow> wrap64 x = x"
  unfolding wrap64_def by simp

text \<open>
  The subtraction of two times is their difference, kept within the range of a
  duration (about 292 years on either side).
\<close>

lemma time_Sub_saturates:
  "time_Sub t u =
     (if t - u < minDuration then minDuration
      else if maxDuration < t - u then maxDuration
      else t - u)"
proof (cases "- (2 ^ 63) \<le> t - u \<and> t - u < 2 ^ 63")
  case True
  then show ?thesis
    by (simp add: time_Sub_def wrap64_id minDuration_def maxDuration_def)
next
  case False
  have "u + wrap64 (t - u) \<noteq> t"
  proof
    assume "u + wrap64 (t - u) = t"
    then have "wrap64 (t - u) = t - u" by simp
    with wrap64_range [of "t - u"] False show False by simp
  qed
  with False show ?thesis
    by (auto simp: time_Sub_def Let_def minDuration_def maxDuration_def)
qed

subsection \<open>The samples of one deployment record\<close>

lemma deployment_body_status:
  "snd (deployment_body p rd d (dm, sm)) = sm @
     (case QueuedOnTime d of Some q \<Rightarrow> [(status_labels p d ''queued'', TimeOf q)] | None \<Rightarrow> []) @
     (case StartedOnTime d of Some s \<Rightarrow> [(status_labels p d ''started'', TimeOf s)] | None \<Rightarrow> []) @
     (case CompletedOnTime d of Some c \<Rightarrow> [(status_labels p d ''finished'', TimeOf c)] | None \<Rightarrow> []) @
     (case CompletedOnTime d of
        Some c \<Rightarrow> (case StartedOnTime d of
                     Some s \<Rightarrow> [(status_labels p d ''jobDuration'', DurationOf (time_Sub c s))]
                   | None \<Rightarrow> [])
      | None \<Rightarrow> [])"
  by (simp add: deployment_body_def AddTime_def AddDuration_def split: option.splits)

lemma status_labels_inject: "status_labels p d ty = status_labels p d ty' \<longleftrightarrow> ty = ty'"
  by (simp add: status_labels_def)

lemma status_samples_eq:
  "status_samples p rd d =
     (case QueuedOnTime d of Some q \<Rightarrow> [(status_labels p d ''queued'', TimeOf q)] | None \<Rightarrow> []) @
     (case StartedOnTime d of Some s \<Rightarrow> [(status_labels p d ''started'', TimeOf s)] | None \<Rightarrow> []) @
     (case CompletedOnTime d of Some c \<Rightarrow> [(status_labels p d ''finished'', TimeOf c)] | None \<Rightarrow> []) @
     (case CompletedOnTime d of
        Some c \<Rightarrow> (case StartedOnTime d of
                     Some s \<Rightarrow> [(status_labels p d ''jobDuration'', DurationOf (time_Sub c s))]
                   | None \<Rightarrow> [])
      | None \<Rightarrow> [])"
  by (simp add: status_samples_def deployment_body_status NewMetricsList_def)

lemma deployment_body_snd:
  "snd (deployment_body p rd d b) = snd b @ status_samples p rd d"
  by (cases b) (simp add: deployment_body_status status_samples_eq)

lemma deployment_loop_snd:
  "snd (deployment_loop p rd ds b) = snd b @ concat (map (status_samples p rd) ds)"
  by (induction ds arbitrary: b) (simp_all add: deployment_body_snd)

lemma definition_loop_snd:
  "\<forall>r \<in> set rds. ListReleaseDeployments c (Project_Id p) (ReleaseDefinition_Id r) = Inr (deployments r) \<Longrightarrow>
   \<exists>dm. definition_loop c lg p rds b =
     Inr (dm, snd b @ concat (map (\<lambda>r. concat (map (status_samples p r) (deployments r))) rds))"
proof (induction rds arbitrary: b)
  case Nil
  then show ?case by (cases b) simp
next
  case (Cons r rds)
  from Cons.prems have "\<forall>r \<in> set rds.
      ListReleaseDeployments c (Project_Id p) (ReleaseDefinition_Id r) = Inr (deployments r)"
    by simp
  from Cons.IH [OF this, of "deployment_loop p r (deployments r) b"] Cons.prems
  show ?case by (simp add: deployment_loop_snd)
qed

lemma status_samples_rows:
  "distinct (map fst (status_samples p rd d)) \<and>
   (\<forall>row \<in> set (status_samples p rd d).
      \<exists>ty \<in> {''queued'', ''started'', ''finished'', ''jobDuration''}. fst row = status_labels p d ty) \<and>
   (\<forall>v. (status_labels p d ''queued'', v) \<in> set (status_samples p rd d) \<longleftrightarrow>
      (\<exists>q. QueuedOnTime d = Some q \<and> v = TimeOf q)) \<and>
   (\<forall>v. (status_labels p d ''started'', v) \<in> set (status_samples p rd d) \<longleftrightarrow>
      (\<exists>s. StartedOnTime d = Some s \<and> v = TimeOf s)) \<and>
   (\<forall>v. (status_labels p d ''finished'', v) \<in> set (status_samples p rd d) \<longleftrightarrow>
      (\<exists>c. CompletedOnTime d = Some c \<and> v = TimeOf c)) \<and>
   (\<forall>v. (status_labels p d ''jobDuration'', v) \<in> set (status_samples p rd d) \<longleftrightarrow>
      (\<exists>c s. CompletedOnTime d = Some c \<and> StartedOnTime d = Some s \<and>
         v = DurationOf (time_Sub c s))) \<and>
   (\<forall>c s. CompletedOnTime d = Some c \<and> StartedOnTime d = Some s \<and>
      minDuration \<le> c - s \<and> c - s \<le> maxDuration \<longrightarrow>
      (status_labels p d ''jobDuration'', DurationOf (c - s)) \<in> set (status_samples p rd d))"
  unfolding status_samples_eq
  by (auto simp: status_labels_inject time_Sub_saturates split: option.splits)

text \<open>
  C9. For every deployment record that the collector processes, the rows added to the
  status batch are the status samples of the record, and these are the following and no
  others, each at most once: a time sample of type \<open>queued\<close>, \<open>started\<close> or
  \<open>finished\<close> exactly when the queued, started or completed time of the record is
  present, with that time as its value; and a duration sample of type \<open>jobDuration\<close>
  exactly when both the started and the completed time are present, with the completed
  time minus the started time as its value (the subtraction of times, which is the plain
  difference whenever that fits a duration). This holds of the loop body, whatever the
  batches held before; the loop over the deployments of a release definition adds the
  samples of every record of the list, in order; and when the listings of a project
  succeed, the status batch that \<open>Collect\<close> queues on the callback channel is made of
  the samples of every record of every release definition, in order, and of nothing
  else.
\<close>

theorem deployment_status_samples:
  "distinct (map fst (status_samples p rd d)) \<and>
   (\<forall>row \<in> set (status_samples p rd d).
      \<exists>ty \<in> {''queued'', ''started'', ''finished'', ''jobDuration''}. fst row = status_labels p d ty) \<and>
   (\<forall>v. (status_labels p d ''queued'', v) \<in> set (status_samples p rd d) \<longleftrightarrow>
      (\<exists>q. QueuedOnTime d = Some q \<and> v = TimeOf q)) \<and>
   (\<forall>v. (status_labels p d ''started'', v) \<in> set (status_samples p rd d) \<longleftrightarrow>
      (\<exists>s. StartedOnTime d = Some s \<and> v = TimeOf s)) \<and>
   (\<forall>v. (status_labels p d ''finished'', v) \<in> set (status_samples p rd d) \<longleftrightarrow>
      (\<exists>c. CompletedOnTime d = Some c \<and> v = TimeOf c)) \<and>
   (\<forall>v. (status_labels p d ''jobDuration'', v) \<in> set (status_samples p rd d) \<longleftrightarrow>
      (\<exists>c s. CompletedOnTime d = Some c \<and> StartedOnTime d = Some s \<and>
         v = DurationOf (time_Sub c s))) \<and>
   (\<forall>c s. CompletedOnTime d = Some c \<and> StartedOnTime d = Some s \<and>
      minDuration \<le> c - s \<and> c - s \<le> maxDuration \<longrightarrow>
      (status_labels p d ''jobDuration'', DurationOf (c - s)) \<in> set (status_samples p rd d)) \<and>
   snd (deployment_body p rd d (dm, sm)) = sm @ status_samples p rd d \<and>
   snd (deployment_loop p rd ds (dm, sm)) = sm @ concat (map (status_samples p rd) ds) \<and>
   (ListReleaseDefinitions c (Project_Id p) = Inr rds \<and>
    (\<forall>r \<in> set rds. ListReleaseDeployments c (Project_Id p) (ReleaseDefinition_Id r) = Inr (deployments r)) \<longrightarrow>
      (\<exists>dmq. collect_batches c lg p =
                Inr (dmq, concat (map (\<lambda>r. concat (map (status_samples p r) (deployments r))) rds)) \<and>
              Collect_project c lg p st =
                st\<lparr>callback := callback st @
                  [apply_batches dmq
                     (concat (map (\<lambda>r. concat (map (status_samples p r) (deployments r))) rds))]\<rparr>))"
proof -
  have "ListReleaseDefinitions c (Project_Id p) = Inr rds \<and>
    (\<forall>r \<in> set rds. ListReleaseDeployments c (Project_Id p) (ReleaseDefinition_Id r) = Inr (deployments r)) \<longrightarrow>
      (\<exists>dmq. collect_batches c lg p =
                Inr (dmq, concat (map (\<lambda>r. concat (map (status_samples p r) (deployments r))) rds)) \<and>
              Collect_project c lg p st =
                st\<lparr>callback := callback st @
                  [apply_batches dmq
                     (concat (map (\<lambda>r. concat (map (status_samples p r) (deployments r))) rds))]\<rparr>)"
  proof
    assume a: "ListReleaseDefinitions c (Project_Id p) = Inr rds \<and>
      (\<forall>r \<in> set rds. ListReleaseDeployments c (Project_Id p) (ReleaseDefinition_Id r) = Inr (deployments r))"
    then have "\<forall>r \<in> set rds. ListReleaseDeployments c (Project_Id p) (ReleaseDefinition_Id r) = Inr (deployments r)"
      by simp
    from definition_loop_snd [OF this, of lg "(NewMetricsList, NewMetricsList)"]
    obtain dmq where "definition_loop c lg p rds (NewMetricsList, NewMetricsList) =
       Inr (dmq, concat (map (\<lambda>r. concat (map (status_samples p r) (deployments r))) rds))"
      by (auto simp: NewMetricsList_def)
    with a have "collect_batches c lg p =
       Inr (dmq, concat (map (\<lambda>r. concat (map (status_samples p r) (deployments r))) rds))"
      by (simp add: collect_batches_def)
    then show "\<exists>dmq. collect_batches c lg p =
                  Inr (dmq, concat (map (\<lambda>r. concat (map (status_samples p r) (deployments r))) rds)) \<and>
                Collect_project c lg p st =
                  st\<lparr>callback := callback st @
                    [apply_batches dmq
                       (concat (map (\<lambda>r. concat (map (status_samples p r) (deployments r))) rds))]\<rparr>"
      by (simp add: Collect_project_def)
  qed
  moreover have "snd (deployment_body p rd d (dm, sm)) = sm @ status_samples p rd d"
    by (simp add: deployment_body_snd)
  moreover have "snd (deployment_loop p rd ds (dm, sm)) = sm @ concat (map (status_samples p rd) ds)"
    by (simp add: deployment_loop_snd)
  ultimately show ?thesis
    using status_samples_rows [of p rd d] by blast
qed

theorem deployment_status_samples_witness:
  "status_samples (scenario_project ''A'') scenario_definition
       (scenario_deployment 10 (Some 2000) (Some 5000)) =
     [([(''projectID'', ''A''), (''deploymentID'', ''10''), (''type'', ''queued'')], TimeOf 1000),
      ([(''projectID'', ''A''), (''deploymentID'', ''10''), (''type'', ''started'')], TimeOf 2000),
      ([(''projectID'', ''A''), (''deploymentID'', ''10''), (''type'', ''finished'')], TimeOf 5000),
      ([(''projectID'', ''A''), (''deploymentID'', ''10''), (''type'', ''jobDuration'')], DurationOf 3000)] \<and>
   map_sum id snd (collect_batches scenario_client Map.empty (scenario_project ''A'')) =
     Inr [([(''projectID'', ''A''), (''deploymentID'', ''10''), (''type'', ''queued'')], TimeOf 1000),
          ([(''projectID'', ''A''), (''deploymentID'', ''10''), (''type'', ''started'')], TimeOf 2000),
          ([(''projectID'', ''A''), (''deploymentID'', ''10''), (''type'', ''finished'')], TimeOf 5000),
          ([(''projectID'', ''A''), (''deploymentID'', ''10''), (''type'', ''jobDuration'')], DurationOf 3000),
          ([(''projectID'', ''A''), (''deploymentID'', ''11''), (''type'', ''queued'')], TimeOf 1000),
          ([(''projectID'', ''A''), (''deploymentID'', ''11''), (''type'', ''started'')], TimeOf 3000)] \<and>
   map (\<lambda>command. prometheus_deploymentStatus (command Setup))
       (callback (Collect_project scenario_client Map.empty (scenario_project ''A'') scenario_state)) =
     [[[(''projectID'', ''A''), (''deploymentID'', ''10''), (''type'', ''queued'')] \<mapsto> TimeOf 1000,
       [(''projectID'', ''A''), (''deploymentID'', ''10''), (''type'', ''started'')] \<mapsto> TimeOf 2000,
       [(''projectID'', ''A''), (''deploymentID'', ''10''), (''type'', ''finished'')] \<mapsto> TimeOf 5000,
       [(''projectID'', ''A''), (''deploymentID'', ''10''), (''type'', ''jobDuration'')] \<mapsto> DurationOf 3000,
       [(''projectID'', ''A''), (''deploymentID'', ''11''), (''type'', ''queued'')] \<mapsto> TimeOf 1000,
       [(''projectID'', ''A''), (''deploymentID'', ''11''), (''type'', ''started'')] \<mapsto> TimeOf 3000]]"
proof -
  have ten: "int64ToString 10 = ''10''" and eleven: "int64ToString 11 = ''11''"
    by code_simp+
  have s10: "status_samples (scenario_project ''A'') scenario_definition
       (scenario_deployment 10 (Some 2000) (Some 5000)) =
     [([(''projectID'', ''A''), (''deploymentID'', ''10''), (''type'', ''queued'')], TimeOf 1000),
      ([(''projectID'', ''A''), (''deploymentID'', ''10''), (''type'', ''started'')], TimeOf 2000),
      ([(''projectID'', ''A''), (''deploymentID'', ''10''), (''type'', ''finished'')], TimeOf 5000),
      ([(''projectID'', ''A''), (''deploymentID'', ''10''), (''type'', ''jobDuration'')], DurationOf 3000)]"
    by (simp add: status_samples_eq scenario_deployment_def scenario_project_def status_labels_def
        ten time_Sub_saturates minDuration_def maxDuration_def)
  have s11: "status_samples (scenario_project ''A'') scenario_definition
       (scenario_deployment 11 (Some 3000) None) =
     [([(''projectID'', ''A''), (''deploymentID'', ''11''), (''type'', ''queued'')], TimeOf 1000),
      ([(''projectID'', ''A''), (''deploymentID'', ''11''), (''type'', ''started'')], TimeOf 3000)]"
    by (simp add: status_samples_eq scenario_deployment_def scenario_project_def status_labels_def
        eleven)
  have l: "ListReleaseDefinitions scenario_client (Project_Id (scenario_project ''A'')) = Inr [scenario_definition]"
    "ListReleaseDeployments scenario_client (Project_Id (scenario_project ''A''))
       (ReleaseDefinition_Id scenario_definition) =
     Inr [scenario_deployment 10 (Some 2000) (Some 5000), scenario_deployment 11 (Some 3000) None]"
    by (simp_all add: scenario_client_def scenario_project_def scenario_definition_def)
  from deployment_status_samples [where p = "scenario_project ''A''" and c = scenario_client
      and rds = "[scenario_definition]" and lg = Map.empty and st = scenario_state
      and rd = scenario_definition and d = "scenario_deployment 10 (Some 2000) (Some 5000)"
      and dm = "[]" and sm = "[]" and ds = "[]"
      and deployments = "\<lambda>r. [scenario_deployment 10 (Some 2000) (Some 5000), scenario_deployment 11 (Some 3000) None]"]
    l
  obtain dmq where "collect_batches scenario_client Map.empty (scenario_project ''A'') =
      Inr (dmq, status_samples (scenario_project ''A'') scenario_definition (scenario_deployment 10 (Some 2000) (Some 5000)) @
                status_samples (scenario_project ''A'') scenario_definition (scenario_deployment 11 (Some 3000) None))"
    and "Collect_project scenario_client Map.empty (scenario_project ''A'') scenario_state =
      scenario_state\<lparr>callback := callback scenario_state @
        [apply_batches dmq
          (status_samples (scenario_project ''A'') scenario_definition (scenario_deployment 10 (Some 2000) (Some 5000)) @
           status_samples (scenario_project ''A'') scenario_definition (scenario_deployment 11 (Some 3000) None))]\<rparr>"
    by auto
  then show ?thesis
    by (simp add: s10 s11 scenario_state_def apply_batches_def Setup_def)
qed

subsection \<open>What a call of Collect changes\<close>

lemma definition_loop_first_failure:
  "rd \<in> set rds \<Longrightarrow> ListReleaseDeployments c (Project_Id p) (ReleaseDefinition_Id rd) = Inl e \<Longrightarrow>
   \<exists>before r after err. rds = before @ r # after \<and>
     (\<forall>x \<in> set before. \<not> isl (ListReleaseDeployments c (Project_Id p) (ReleaseDefinition_Id x))) \<and>
     ListReleaseDeployments c (Project_Id p) (ReleaseDefinition_Id r) = Inl err \<and>
     definition_loop c lg p rds b =
       Inl (LogLine ErrorLevel (WithField ''releaseDefinition'' (ReleaseDefinition_Name r) lg) (error_text err))"
proof (induction rds arbitrary: b)
  case Nil
  then show ?case by simp
next
  case (Cons x xs)
  show ?case
  proof (cases "ListReleaseDeployments c (Project_Id p) (ReleaseDefinition_Id x)")
    case (Inl err)
    then have "x # xs = [] @ x # xs \<and>
      (\<forall>y \<in> set []. \<not> isl (ListReleaseDeployments c (Project_Id p) (ReleaseDefinition_Id y))) \<and>
      ListReleaseDeployments c (Project_Id p) (ReleaseDefinition_Id x) = Inl err \<and>
      definition_loop c lg p (x # xs) b =
        Inl (LogLine ErrorLevel (WithField ''releaseDefinition'' (ReleaseDefinition_Name x) lg) (error_text err))"
      by (simp add: entry_Error_def)
    then show ?thesis by blast
  next
    case (Inr ds)
    with Cons.prems have "rd \<in> set xs" by auto
    from Cons.IH [OF this Cons.prems(2), of "deployment_loop p x ds b"]
    obtain before r after err where xs: "xs = before @ r # after"
      and ok: "\<forall>y \<in> set before. \<not> isl (ListReleaseDeployments c (Project_Id p) (ReleaseDefinition_Id y))"
      and bad: "ListReleaseDeployments c (Project_Id p) (ReleaseDefinition_Id r) = Inl err"
      and res: "definition_loop c lg p xs (deployment_loop p x ds b) =
        Inl (LogLine ErrorLevel (WithField ''releaseDefinition'' (ReleaseDefinition_Name r) lg) (error_text err))"
      by blast
    from xs ok bad res Inr have "x # xs = (x # before) @ r # after \<and>
      (\<forall>y \<in> set (x # before). \<not> isl (ListReleaseDeployments c (Project_Id p) (ReleaseDefinition_Id y))) \<and>
      ListReleaseDeployments c (Project_Id p) (ReleaseDefinition_Id r) = Inl err \<and>
      definition_loop c lg p (x # xs) b =
        Inl (LogLine ErrorLevel (WithField ''releaseDefinition'' (ReleaseDefinition_Name r) lg) (error_text err))"
      by simp
    then show ?thesis by blast
  qed
qed

lemma Collect_frame:
  "prometheus (Collect_project c lg p st) = prometheus st"
  by (simp add: Collect_project_def split: sum.splits)

lemma Collect_logged_update:
  "Collect_project c lg q (st\<lparr>logged := l\<rparr>) = (Collect_project c lg q st)\<lparr>logged := l @ drop (length (logged st)) (logged (Collect_project c lg q st))\<rparr>"
  by (simp add: Collect_project_def split: sum.splits)

text \<open>
  C2. For every project and every response of the API, a call of \<open>Collect\<close> leaves
  the plug-in's gauge vectors as they are; what it changes in the Registry it
  expresses as a command sent on the callback channel: the channel holds what it held
  before, followed by at most one command, which sets the two batches on the vectors
  when the apply phase runs it.
\<close>

theorem Collect_queues_only:
  "prometheus (Collect_project c lg p st) = prometheus st \<and>
   (callback (Collect_project c lg p st) = callback st \<or>
    (\<exists>dm sm. callback (Collect_project c lg p st) = callback st @ [apply_batches dm sm]))"
  by (auto simp: Collect_project_def split: sum.splits)

theorem Collect_queues_only_witness:
  "prometheus (Collect_project scenario_client Map.empty (scenario_project ''A'') scenario_state) =
     prometheus scenario_state \<and>
   length (callback (Collect_project scenario_client Map.empty (scenario_project ''A'') scenario_state)) = 1 \<and>
   callback (Collect_project scenario_client Map.empty (scenario_project ''C'') scenario_state) = []"
  using Collect_queues_only [of scenario_client Map.empty "scenario_project ''A''" scenario_state]
  by (simp add: Collect_project_def collect_batches_def scenario_client_def scenario_project_def
      scenario_state_def scenario_definition_def)

text \<open>
  C3. When a listing of the API fails for a project (the listing of its release
  definitions, or the listing of the deployments of one of them), the call of
  \<open>Collect\<close> for that project logs the error and returns: the log gains one line, at
  the level of errors, whose message is the text of the error that the failed listing
  returned, logged through the logger of the call for the listing of the release
  definitions, and through that logger with the name of the release definition added
  for the first listing of deployments that fails; nothing is sent on the callback
  channel, and the gauge vectors are untouched. Its siblings are unaffected: the call
  for any other project \<open>q\<close> queues the same commands, and the apply phase gives the
  same gauge vectors, whether the failing call ran before it, after it, or not at all.
\<close>

theorem Collect_failure_isolated:
  assumes "ListReleaseDefinitions c (Project_Id p) = Inl e \<or>
           (\<exists>rds rd. ListReleaseDefinitions c (Project_Id p) = Inr rds \<and> rd \<in> set rds \<and>
              ListReleaseDeployments c (Project_Id p) (ReleaseDefinition_Id rd) = Inl e)"
  shows "(\<exists>entry err.
            Collect_project c lg p st = st\<lparr>logged := logged st @ [LogLine ErrorLevel entry (error_text err)]\<rparr> \<and>
            (ListReleaseDefinitions c (Project_Id p) = Inl err \<and> entry = lg \<or>
             (\<exists>before rd after.
                ListReleaseDefinitions c (Project_Id p) = Inr (before @ rd # after) \<and>
                (\<forall>r \<in> set before. \<not> isl (ListReleaseDeployments c (Project_Id p) (ReleaseDefinition_Id r))) \<and>
                ListReleaseDeployments c (Project_Id p) (ReleaseDefinition_Id rd) = Inl err \<and>
                entry = WithField ''releaseDefinition'' (ReleaseDefinition_Name rd) lg))) \<and>
         callback (Collect_project c lg p st) = callback st \<and>
         prometheus (Collect_project c lg p st) = prometheus st \<and>
         callback (Collect_project c lg q (Collect_project c lg p st)) = callback (Collect_project c lg q st) \<and>
         callback (Collect_project c lg p (Collect_project c lg q st)) = callback (Collect_project c lg q st) \<and>
         prometheus (Collect_project c lg q (Collect_project c lg p st)) = prometheus (Collect_project c lg q st) \<and>
         prometheus (apply_phase (Collect_project c lg q (Collect_project c lg p st))) =
           prometheus (apply_phase (Collect_project c lg q st)) \<and>
         prometheus (apply_phase (Collect_project c lg p (Collect_project c lg q st))) =
           prometheus (apply_phase (Collect_project c lg q st))"
proof -
  have "\<exists>entry err. collect_batches c lg p = Inl (LogLine ErrorLevel entry (error_text err)) \<and>
            (ListReleaseDefinitions c (Project_Id p) = Inl err \<and> entry = lg \<or>
             (\<exists>before rd after.
                ListReleaseDefinitions c (Project_Id p) = Inr (before @ rd # after) \<and>
                (\<forall>r \<in> set before. \<not> isl (ListReleaseDeployments c (Project_Id p) (ReleaseDefinition_Id r))) \<and>
                ListReleaseDeployments c (Project_Id p) (ReleaseDefinition_Id rd) = Inl err \<and>
                entry = WithField ''releaseDefinition'' (ReleaseDefinition_Name rd) lg))"
    using assms
  proof
    assume "ListReleaseDefinitions c (Project_Id p) = Inl e"
    then have "collect_batches c lg p = Inl (LogLine ErrorLevel lg (error_text e)) \<and>
        ListReleaseDefinitions c (Project_Id p) = Inl e \<and> lg = lg"
      by (simp add: collect_batches_def entry_Error_def)
    then show ?thesis by blast
  next
    assume "\<exists>rds rd. ListReleaseDefinitions c (Project_Id p) = Inr rds \<and> rd \<in> set rds \<and>
              ListReleaseDeployments c (Project_Id p) (ReleaseDefinition_Id rd) = Inl e"
    then obtain rds rd where l: "ListReleaseDefinitions c (Project_Id p) = Inr rds"
      and "rd \<in> set rds" "ListReleaseDeployments c (Project_Id p) (ReleaseDefinition_Id rd) = Inl e"
      by blast
    from definition_loop_first_failure [OF this(2,3), of lg "(NewMetricsList, NewMetricsList)"]
    obtain before r after err where rds: "rds = before @ r # after"
      and ok: "\<forall>x \<in> set before. \<not> isl (ListReleaseDeployments c (Project_Id p) (ReleaseDefinition_Id x))"
      and bad: "ListReleaseDeployments c (Project_Id p) (ReleaseDefinition_Id r) = Inl err"
      and res: "definition_loop c lg p rds (NewMetricsList, NewMetricsList) =
        Inl (LogLine ErrorLevel (WithField ''releaseDefinition'' (ReleaseDefinition_Name r) lg) (error_text err))"
      by blast
    from l res have "collect_batches c lg p =
        Inl (LogLine ErrorLevel (WithField ''releaseDefinition'' (ReleaseDefinition_Name r) lg) (error_text err))"
      by (simp add: collect_batches_def)
    with l rds ok bad show ?thesis by blast
  qed
  then obtain entry err where cb: "collect_batches c lg p = Inl (LogLine ErrorLevel entry (error_text err))"
    and which: "ListReleaseDefinitions c (Project_Id p) = Inl err \<and> entry = lg \<or>
             (\<exists>before rd after.
                ListReleaseDefinitions c (Project_Id p) = Inr (before @ rd # after) \<and>
                (\<forall>r \<in> set before. \<not> isl (ListReleaseDeployments c (Project_Id p) (ReleaseDefinition_Id r))) \<and>
                ListReleaseDeployments c (Project_Id p) (ReleaseDefinition_Id rd) = Inl err \<and>
                entry = WithField ''releaseDefinition'' (ReleaseDefinition_Name rd) lg)"
    by blast
  from cb have a: "Collect_project c lg p s = s\<lparr>logged := logged s @ [LogLine ErrorLevel entry (error_text err)]\<rparr>" for s
    by (simp add: Collect_project_def)
  have "callback (Collect_project c lg p st) = callback st"
    and "prometheus (Collect_project c lg p st) = prometheus st"
    and "callback (Collect_project c lg q (Collect_project c lg p st)) = callback (Collect_project c lg q st)"
    and "callback (Collect_project c lg p (Collect_project c lg q st)) = callback (Collect_project c lg q st)"
    and "prometheus (Collect_project c lg q (Collect_project c lg p st)) = prometheus (Collect_project c lg q st)"
    by (simp_all add: a Collect_logged_update Collect_frame)
  moreover from this
  have "prometheus (apply_phase (Collect_project c lg q (Collect_project c lg p st))) =
          prometheus (apply_phase (Collect_project c lg q st))"
    and "prometheus (apply_phase (Collect_project c lg p (Collect_project c lg q st))) =
          prometheus (apply_phase (Collect_project c lg q st))"
    by (simp_all add: apply_phase_def Collect_frame)
  ultimately show ?thesis
    using a [of st] which by blast
qed

theorem Collect_failure_isolated_witness:
  "Collect_project scenario_client Map.empty (scenario_project ''C'') scenario_state =
     scenario_state\<lparr>logged := [LogLine ErrorLevel Map.empty ''503 Service Unavailable'']\<rparr> \<and>
   callback (Collect_project scenario_client Map.empty (scenario_project ''A'')
      (Collect_project scenario_client Map.empty (scenario_project ''C'') scenario_state)) =
     callback (Collect_project scenario_client Map.empty (scenario_project ''A'') scenario_state) \<and>
   Collect_project failing_client Map.empty (scenario_project ''A'') scenario_state =
     scenario_state\<lparr>logged := [LogLine ErrorLevel [''releaseDefinition'' \<mapsto> ''api''] ''timeout'']\<rparr>"
  using Collect_failure_isolated [of scenario_client "scenario_project ''C''"
      "GoError ''503 Service Unavailable''" Map.empty scenario_state "scenario_project ''A''"]
    Collect_failure_isolated [of failing_client "scenario_project ''A''"
      "GoError ''timeout''" Map.empty scenario_state "scenario_project ''B''"]
  by (auto simp: Collect_project_def collect_batches_def scenario_client_def failing_client_def
      scenario_project_def scenario_state_def scenario_definition_def entry_Error_def
      NewMetricsList_def WithField_def)

subsection \<open>The cycle\<close>

lemma GaugeSet_append: "GaugeSet (xs @ ys) g = GaugeSet ys (GaugeSet xs g)"
  by (induction xs arbitrary: g) simp_all

lemma dom_GaugeSet: "dom (GaugeSet rows g) = dom g \<union> fst ` set rows"
  by (induction rows arbitrary: g) auto

lemma of_project_simps [simp]:
  "of_project p []" "of_project p (xs @ ys) \<longleftrightarrow> of_project p xs \<and> of_project p ys"
  "of_project p (row # xs) \<longleftrightarrow> map_of (fst row) ''projectID'' = Some (Project_Id p) \<and> of_project p xs"
  by (auto simp: of_project_def)

lemma deployment_body_of_project:
  "of_project p (fst b) \<Longrightarrow> of_project p (snd b) \<Longrightarrow>
   of_project p (fst (deployment_body p rd d b)) \<and> of_project p (snd (deployment_body p rd d b))"
  by (auto simp: deployment_body_def Let_def AddInfo_def AddTime_def AddDuration_def status_labels_def
      deployment_labels_def split: option.splits)

lemma deployment_loop_of_project:
  "of_project p (fst b) \<Longrightarrow> of_project p (snd b) \<Longrightarrow>
   of_project p (fst (deployment_loop p rd ds b)) \<and> of_project p (snd (deployment_loop p rd ds b))"
  by (induction ds arbitrary: b) (simp_all add: deployment_body_of_project)

lemma definition_loop_of_project:
  "definition_loop c lg p rds b = Inr b' \<Longrightarrow> of_project p (fst b) \<Longrightarrow> of_project p (snd b) \<Longrightarrow>
   of_project p (fst b') \<and> of_project p (snd b')"
proof (induction rds arbitrary: b)
  case Nil
  then show ?case by simp
next
  case (Cons rd rds)
  from Cons.prems(1) obtain ds where
    ds: "ListReleaseDeployments c (Project_Id p) (ReleaseDefinition_Id rd) = Inr ds"
    and rest: "definition_loop c lg p rds (deployment_loop p rd ds b) = Inr b'"
    by (auto split: sum.splits)
  from deployment_loop_of_project [OF Cons.prems(2,3)]
  have "of_project p (fst (deployment_loop p rd ds b))" "of_project p (snd (deployment_loop p rd ds b))"
    by simp_all
  with Cons.IH [OF rest] show ?case
    by simp
qed

lemma collect_batches_of_project:
  "collect_batches c lg p = Inr b \<Longrightarrow> of_project p (fst b) \<and> of_project p (snd b)"
  unfolding collect_batches_def
  by (auto split: sum.splits simp: NewMetricsList_def dest!: definition_loop_of_project)

lemma collect_phase_callback:
  "callback (collector (collect_phase c lg ps cs)) =
     callback (collector cs) @ concat (map (\<lambda>p. case collect_batches c lg p of
                                       Inl line \<Rightarrow> []
                                     | Inr b \<Rightarrow> [apply_batches (fst b) (snd b)]) ps)"
  by (induction ps arbitrary: cs) (auto simp: run_task_def Let_def Collect_project_def split: sum.splits)

lemma collect_phase_logged:
  "logged (collector (collect_phase c lg ps cs)) =
     logged (collector cs) @ concat (map (\<lambda>p. case collect_batches c lg p of
                                     Inl line \<Rightarrow> [line]
                                   | Inr b \<Rightarrow> []) ps)"
  by (induction ps arbitrary: cs) (auto simp: run_task_def Let_def Collect_project_def split: sum.splits)

lemma collect_phase_prometheus:
  "prometheus (collector (collect_phase c lg ps cs)) = prometheus (collector cs)"
  by (induction ps arbitrary: cs) (auto simp: run_task_def Let_def Collect_project_def split: sum.splits)

lemma collect_phase_error_count:
  "error_count (collect_phase c lg ps cs) =
     error_count cs + length (filter (\<lambda>p. isl (collect_batches c lg p)) ps)"
  by (induction ps arbitrary: cs) (auto simp: run_task_def Let_def Collect_project_def split: sum.splits)

lemma collect_phase_success_count:
  "success_count (collect_phase c lg ps cs) =
     success_count cs + length (filter (\<lambda>p. \<not> isl (collect_batches c lg p)) ps)"
  by (induction ps arbitrary: cs) (auto simp: run_task_def Let_def Collect_project_def split: sum.splits)

lemma apply_queue_dom:
  "dom (prometheus_deployment (foldl (\<lambda>m command. command m) m
          (concat (map (\<lambda>p. case collect_batches c lg p of
                                Inl line \<Rightarrow> []
                              | Inr b \<Rightarrow> [apply_batches (fst b) (snd b)]) ps)))) =
   dom (prometheus_deployment m) \<union>
     (\<Union>p \<in> set ps. case collect_batches c lg p of Inl line \<Rightarrow> {} | Inr b \<Rightarrow> fst ` set (fst b))"
  by (induction ps arbitrary: m) (auto simp: apply_batches_def dom_GaugeSet split: sum.splits)

lemma apply_queue_dom_status:
  "dom (prometheus_deploymentStatus (foldl (\<lambda>m command. command m) m
          (concat (map (\<lambda>p. case collect_batches c lg p of
                                Inl line \<Rightarrow> []
                              | Inr b \<Rightarrow> [apply_batches (fst b) (snd b)]) ps)))) =
   dom (prometheus_deploymentStatus m) \<union>
     (\<Union>p \<in> set ps. case collect_batches c lg p of Inl line \<Rightarrow> {} | Inr b \<Rightarrow> fst ` set (snd b))"
  by (induction ps arbitrary: m) (auto simp: apply_batches_def dom_GaugeSet split: sum.splits)

lemma cycle_dom:
  "dom (prometheus_deployment (prometheus (collector (cycle c lg ps cs)))) =
     (\<Union>p \<in> set ps. case collect_batches c lg p of Inl line \<Rightarrow> {} | Inr b \<Rightarrow> fst ` set (fst b))"
  "dom (prometheus_deploymentStatus (prometheus (collector (cycle c lg ps cs)))) =
     (\<Union>p \<in> set ps. case collect_batches c lg p of Inl line \<Rightarrow> {} | Inr b \<Rightarrow> fst ` set (snd b))"
  by (simp_all add: cycle_def Let_def apply_phase_def collect_phase_callback collect_phase_prometheus
      apply_queue_dom apply_queue_dom_status Reset_def)

lemma cycle_logged:
  "logged (collector (cycle c lg ps cs)) =
     logged (collector cs) @ concat (map (\<lambda>p. case collect_batches c lg p of
                                     Inl line \<Rightarrow> [line]
                                   | Inr b \<Rightarrow> []) ps)"
  by (simp add: cycle_def Let_def apply_phase_def collect_phase_logged)

lemma cycle_counts:
  "error_count (cycle c lg ps cs) =
     error_count cs + length (filter (\<lambda>p. isl (collect_batches c lg p)) ps)"
  "success_count (cycle c lg ps cs) =
     success_count cs + length (filter (\<lambda>p. \<not> isl (collect_batches c lg p)) ps)"
  by (simp_all add: cycle_def Let_def collect_phase_error_count collect_phase_success_count)

lemma concat_map_single:
  "distinct ps \<Longrightarrow> x \<in> set ps \<Longrightarrow> \<forall>p \<in> set ps. p \<noteq> x \<longrightarrow> f p = [] \<Longrightarrow>
   concat (map f ps) = f x"
  by (induction ps) auto

lemma definition_loop_empty:
  "\<forall>rd \<in> set rds. ListReleaseDeployments c pid (ReleaseDefinition_Id rd) = Inr [] \<Longrightarrow>
   Project_Id p = pid \<Longrightarrow> definition_loop c lg p rds b = Inr b"
  by (induction rds arbitrary: b) simp_all

lemma deployment_labels_project:
  "map_of (deployment_labels p rd d) ''projectID'' = Some (Project_Id p)"
  by (simp add: deployment_labels_def)

lemma of_char_digit: "n < 10 \<Longrightarrow> (of_char (digit_char n) :: nat) = 48 + n"
  by (simp add: digit_char_def)

lemma decimal_value_decimal: "decimal_value (decimal n) = n"
proof (induction n rule: decimal.induct)
  case (1 n)
  show ?case
  proof (cases "n < 10")
    case True
    then show ?thesis
      by (subst decimal.simps) (simp add: decimal_value_def of_char_digit)
  next
    case False
    with 1 have "decimal_value (decimal (n div 10)) = n div 10" by simp
    with False show ?thesis
      by (subst decimal.simps) (simp add: decimal_value_def of_char_digit)
  qed
qed

lemma decimal_no_minus: "CHR ''-'' \<notin> set (decimal n)"
proof (induction n rule: decimal.induct)
  case (1 n)
  have d: "digit_char k \<noteq> CHR ''-''" if "k < 10" for k
  proof
    assume "digit_char k = CHR ''-''"
    then have "(of_char (digit_char k) :: nat) = of_char (CHR ''-'')" by simp
    with that show False by (simp add: of_char_digit)
  qed
  show ?case
  proof (cases "n < 10")
    case True
    then show ?thesis
      using d [of n] by (subst decimal.simps) auto
  next
    case False
    with 1 have "CHR ''-'' \<notin> set (decimal (n div 10))" by simp
    with False show ?thesis
      using d [of "n mod 10"] by (subst decimal.simps) auto
  qed
qed

lemma decimal_inject: "decimal m = decimal n \<Longrightarrow> m = n"
  by (rule box_equals [OF _ decimal_value_decimal decimal_value_decimal]) (rule arg_cong)

lemma int64ToString_inject: "int64ToString a = int64ToString b \<longleftrightarrow> a = b"
proof
  assume eq: "int64ToString a = int64ToString b"
  have m: "CHR ''-'' # s \<noteq> decimal k" for s k
    using decimal_no_minus [of k] by (metis list.set_intros(1))
  show "a = b"
  proof (cases "a < 0")
    case True
    show ?thesis
    proof (cases "b < 0")
      case b: True
      with True eq have "decimal (nat (- a)) = decimal (nat (- b))"
        by (simp add: int64ToString_def)
      then have "nat (- a) = nat (- b)" by (rule decimal_inject)
      with True b show ?thesis by simp
    next
      case False
      with True eq m show ?thesis by (simp add: int64ToString_def)
    qed
  next
    case False
    show ?thesis
    proof (cases "b < 0")
      case True
      with False eq m [of "decimal (nat (- b))" "nat a"] show ?thesis by (simp add: int64ToString_def)
    next
      case b: False
      with False eq have "decimal (nat a) = decimal (nat b)"
        by (simp add: int64ToString_def)
      then have "nat a = nat b" by (rule decimal_inject)
      with False b show ?thesis by simp
    qed
  qed
qed simp

lemma deployment_labels_inject:
  "Deployment_Id d1 \<noteq> Deployment_Id d2 \<Longrightarrow> deployment_labels p rd d1 \<noteq> deployment_labels p rd d2"
  by (simp add: deployment_labels_def int64ToString_inject)

text \<open>
  C1 (amended). Scenario: the projects are \<open>A\<close>, \<open>B\<close> and \<open>C\<close>, collected in any
  order; the API returns two records (two deployments: their ids differ) for \<open>A\<close>,
  none for \<open>B\<close>, and an error for \<open>C\<close>. After the cycle, whose apply phase first
  invokes \<open>Reset\<close> and then applies the queued commands, the plug-in's vectors hold
  the two entries for \<open>A\<close> and no entry for \<open>B\<close>; they hold no entry for \<open>C\<close>
  either, whatever they held for \<open>C\<close> before, since \<open>Reset\<close> clears the whole
  vector; and the error counter has been incremented by one (the success counter by
  two), the error for \<open>C\<close> being the one line logged.
\<close>

theorem cycle_scenario:
  assumes ps: "distinct projects" "set projects = {pA, pB, pC}"
    and ids: "Project_Id pA \<noteq> Project_Id pB" "Project_Id pA \<noteq> Project_Id pC"
      "Project_Id pB \<noteq> Project_Id pC"
    and A: "ListReleaseDefinitions c (Project_Id pA) = Inr [rd]"
      "ListReleaseDeployments c (Project_Id pA) (ReleaseDefinition_Id rd) = Inr [d1, d2]"
      "Deployment_Id d1 \<noteq> Deployment_Id d2"
    and B: "ListReleaseDefinitions c (Project_Id pB) = Inr rdsB"
      "\<forall>r \<in> set rdsB. ListReleaseDeployments c (Project_Id pB) (ReleaseDefinition_Id r) = Inr []"
    and C: "ListReleaseDefinitions c (Project_Id pC) = Inl e"
  shows "entries (prometheus_deployment (prometheus (collector (cycle c lg projects cs)))) (Project_Id pA) =
           {deployment_labels pA rd d1, deployment_labels pA rd d2} \<and>
         card (entries (prometheus_deployment (prometheus (collector (cycle c lg projects cs)))) (Project_Id pA)) = 2 \<and>
         entries (prometheus_deployment (prometheus (collector (cycle c lg projects cs)))) (Project_Id pB) = {} \<and>
         entries (prometheus_deploymentStatus (prometheus (collector (cycle c lg projects cs)))) (Project_Id pB) = {} \<and>
         entries (prometheus_deployment (prometheus (collector (cycle c lg projects cs)))) (Project_Id pC) = {} \<and>
         entries (prometheus_deploymentStatus (prometheus (collector (cycle c lg projects cs)))) (Project_Id pC) = {} \<and>
         error_count (cycle c lg projects cs) = error_count cs + 1 \<and>
         success_count (cycle c lg projects cs) = success_count cs + 2 \<and>
         logged (collector (cycle c lg projects cs)) = logged (collector cs) @ [entry_Error lg e]"
proof -
  let ?l1 = "deployment_labels pA rd d1" and ?l2 = "deployment_labels pA rd d2"
  let ?g = "prometheus (collector (cycle c lg projects cs))"
  obtain bA where bA: "collect_batches c lg pA = Inr bA"
    and fA: "fst bA = [(?l1, Info), (?l2, Info)]"
    using A(1,2) by (simp add: collect_batches_def NewMetricsList_def deployment_body_def AddInfo_def Let_def)
  from collect_batches_of_project [OF bA] have sA: "of_project pA (snd bA)"
    by simp
  have bB: "collect_batches c lg pB = Inr ([], [])"
    using B by (simp add: collect_batches_def NewMetricsList_def definition_loop_empty)
  have bC: "collect_batches c lg pC = Inl (entry_Error lg e)"
    using C by (simp add: collect_batches_def)
  have d: "dom (prometheus_deployment ?g) = {?l1, ?l2}"
    by (auto simp: cycle_dom ps(2) bA fA bB bC)
  have s: "dom (prometheus_deploymentStatus ?g) = fst ` set (snd bA)"
    by (auto simp: cycle_dom ps(2) bA bB bC)
  have eA: "entries (prometheus_deployment ?g) (Project_Id pA) = {?l1, ?l2}"
    by (auto simp: entries_def d deployment_labels_project)
  have eB: "entries (prometheus_deployment ?g) (Project_Id pB) = {}"
    and eC: "entries (prometheus_deployment ?g) (Project_Id pC) = {}"
    using ids by (auto simp: entries_def d deployment_labels_project)
  have tB: "entries (prometheus_deploymentStatus ?g) (Project_Id pB) = {}"
    and tC: "entries (prometheus_deploymentStatus ?g) (Project_Id pC) = {}"
    using ids sA by (auto simp: entries_def s of_project_def)
  have "pC \<in> set projects" and "\<forall>p \<in> set projects. p \<noteq> pC \<longrightarrow>
      (case collect_batches c lg p of Inl line \<Rightarrow> [line] | Inr b \<Rightarrow> []) = []"
    by (auto simp: ps(2) bA bB)
  from concat_map_single [OF ps(1) this]
  have lg: "logged (collector (cycle c lg projects cs)) = logged (collector cs) @ [entry_Error lg e]"
    by (simp add: cycle_logged bC)
  from ids have ne: "pA \<noteq> pB" "pA \<noteq> pC" "pB \<noteq> pC"
    by auto
  have "{p. isl (collect_batches c lg p)} \<inter> set projects = {pC}"
    and "{p. \<not> isl (collect_batches c lg p)} \<inter> set projects = {pA, pB}"
    by (auto simp: ps(2) bA bB bC)
  with ne have "length (filter (\<lambda>p. isl (collect_batches c lg p)) projects) = 1"
    and "length (filter (\<lambda>p. \<not> isl (collect_batches c lg p)) projects) = 2"
    by (simp_all add: distinct_length_filter [OF ps(1)])
  then have n: "error_count (cycle c lg projects cs) = error_count cs + 1"
    "success_count (cycle c lg projects cs) = success_count cs + 2"
    by (simp_all add: cycle_counts)
  from A(3) have "card {?l1, ?l2} = 2"
    by (simp add: deployment_labels_inject)
  with eA eB eC tB tC lg n show ?thesis
    by simp
qed

theorem cycle_scenario_witness:
  "entries (prometheus_deployment (prometheus (collector
       (cycle scenario_client Map.empty
          [scenario_project ''C'', scenario_project ''A'', scenario_project ''B''] scenario_cycle)))) ''A'' =
     {deployment_labels (scenario_project ''A'') scenario_definition (scenario_deployment 10 (Some 2000) (Some 5000)),
      deployment_labels (scenario_project ''A'') scenario_definition (scenario_deployment 11 (Some 3000) None)} \<and>
   card (entries (prometheus_deployment (prometheus (collector
       (cycle scenario_client Map.empty
          [scenario_project ''C'', scenario_project ''A'', scenario_project ''B''] scenario_cycle)))) ''A'') = 2 \<and>
   error_count (cycle scenario_client Map.empty
          [scenario_project ''C'', scenario_project ''A'', scenario_project ''B''] scenario_cycle) = 2 \<and>
   success_count (cycle scenario_client Map.empty
          [scenario_project ''C'', scenario_project ''A'', scenario_project ''B''] scenario_cycle) = 6 \<and>
   logged (collector (cycle scenario_client Map.empty
          [scenario_project ''C'', scenario_project ''A'', scenario_project ''B''] scenario_cycle)) =
     [LogLine ErrorLevel Map.empty ''503 Service Unavailable'']"
proof -
  have "Project_Id (scenario_project n) = n" for n
    by (simp add: scenario_project_def)
  note [simp] = this
  have "distinct [scenario_project ''C'', scenario_project ''A'', scenario_project ''B'']"
    and "set [scenario_project ''C'', scenario_project ''A'', scenario_project ''B''] =
      {scenario_project ''A'', scenario_project ''B'', scenario_project ''C''}"
    and "ListReleaseDefinitions scenario_client ''A'' = Inr [scenario_definition]"
    and "ListReleaseDeployments scenario_client ''A'' (ReleaseDefinition_Id scenario_definition) =
      Inr [scenario_deployment 10 (Some 2000) (Some 5000), scenario_deployment 11 (Some 3000) None]"
    and "Deployment_Id (scenario_deployment 10 (Some 2000) (Some 5000)) \<noteq>
      Deployment_Id (scenario_deployment 11 (Some 3000) None)"
    and "ListReleaseDefinitions scenario_client ''B'' = Inr []"
    and "ListReleaseDefinitions scenario_client ''C'' = Inl (GoError ''503 Service Unavailable'')"
    by (auto simp: scenario_project_def scenario_client_def scenario_definition_def
        scenario_deployment_def)
  with cycle_scenario [of "[scenario_project ''C'', scenario_project ''A'', scenario_project ''B'']"
      "scenario_project ''A''" "scenario_project ''B''" "scenario_project ''C''"
      scenario_client scenario_definition
      "scenario_deployment 10 (Some 2000) (Some 5000)" "scenario_deployment 11 (Some 3000) None"
      "[]" "GoError ''503 Service Unavailable''" Map.empty scenario_cycle]
  show ?thesis
    by (auto simp: scenario_cycle_def scenario_state_def entry_Error_def)
qed

text \<open>
  The claim as the specification states it, that the entries held for \<open>C\<close> before the
  cycle are still held after it, fails in the scenario: the entry is gone.
\<close>

theorem cycle_scenario_stale_entries_cleared:
  "entries (prometheus_deployment (prometheus (collector scenario_cycle))) ''C'' =
     {deployment_labels (scenario_project ''C'') scenario_definition (scenario_deployment 7 None None)} \<and>
   entries (prometheus_deployment (prometheus (collector
       (cycle scenario_client Map.empty
          [scenario_project ''A'', scenario_project ''B'', scenario_project ''C''] scenario_cycle)))) ''C'' = {}"
proof -
  have "collect_batches scenario_client Map.empty (scenario_project ''C'') =
          Inl (entry_Error Map.empty (GoError ''503 Service Unavailable''))"
    and "collect_batches scenario_client Map.empty (scenario_project ''B'') = Inr ([], [])"
    by (simp_all add: collect_batches_def scenario_client_def scenario_project_def NewMetricsList_def)
  moreover obtain bA where "collect_batches scenario_client Map.empty (scenario_project ''A'') = Inr bA"
    by (simp add: collect_batches_def scenario_client_def scenario_project_def scenario_definition_def)
  moreover from collect_batches_of_project [OF this]
  have "of_project (scenario_project ''A'') (fst bA)"
    by simp
  ultimately have "entries (prometheus_deployment (prometheus (collector
       (cycle scenario_client Map.empty
          [scenario_project ''A'', scenario_project ''B'', scenario_project ''C''] scenario_cycle)))) ''C'' = {}"
    by (auto simp: entries_def cycle_dom of_project_def scenario_project_def)
  moreover have "entries (prometheus_deployment (prometheus (collector scenario_cycle))) ''C'' =
     {deployment_labels (scenario_project ''C'') scenario_definition (scenario_deployment 7 None None)}"
    by (auto simp: entries_def scenario_cycle_def scenario_state_def deployment_labels_def scenario_project_def
        split: if_splits)
  ultimately show ?thesis
    by simp
qed

section \<open>Properties of startup\<close>

subsection \<open>Argument parsing\<close>

text \<open>
  C7. Argument parsing ends the process or returns: when the parser reports a help
  request, \<open>initArgparser\<close> exits with status 0 and prints nothing itself; when it
  reports any other error, \<open>initArgparser\<close> prints an empty line and the usage text and
  exits with status 1; when it reports no error, parsing returns and \<open>initArgparser\<close>
  goes on with the steps that follow it.
\<close>

theorem initArgparser_parse_outcomes:
  "(\<forall>err. Parse_err env = Some err \<and> is_ErrHelp err \<longrightarrow>
      initArgparser env p = Exited 0 (p\<lparr>opts := Parse_opts env\<rparr>)) \<and>
   (\<forall>err. Parse_err env = Some err \<and> \<not> is_ErrHelp err \<longrightarrow>
      initArgparser env p =
        Exited 1 (p\<lparr>opts := Parse_opts env, stdout := stdout p @ [[CHR 0x0A], WriteHelp env]\<rparr>)) \<and>
   (Parse_err env = None \<longrightarrow>
      parse_arguments env p = Returned (p\<lparr>opts := Parse_opts env\<rparr>) \<and>
      initArgparser env p = after_parse env (p\<lparr>opts := Parse_opts env\<rparr>))"
  by (simp add: initArgparser_def parse_arguments_def)

theorem initArgparser_parse_outcomes_witness:
  "initArgparser (startup_env\<lparr>Parse_err := Some (FlagsError ErrHelp ''Usage'')\<rparr>) startup_process =
     Exited 0 (startup_process\<lparr>opts := startup_opts\<rparr>) \<and>
   initArgparser (startup_env\<lparr>Parse_err := Some (FlagsError ErrUnknownFlag ''unknown flag x'')\<rparr>) startup_process =
     Exited 1 (startup_process\<lparr>opts := startup_opts,
        stdout := [[CHR 0x0A], ''Usage: azure-devops-exporter [OPTIONS]'']\<rparr>) \<and>
   initArgparser (startup_env\<lparr>Parse_err := Some (OtherError ''boom'')\<rparr>) startup_process =
     Exited 1 (startup_process\<lparr>opts := startup_opts,
        stdout := [[CHR 0x0A], ''Usage: azure-devops-exporter [OPTIONS]'']\<rparr>) \<and>
   initArgparser startup_env startup_process = after_parse startup_env (startup_process\<lparr>opts := startup_opts\<rparr>)"
  using initArgparser_parse_outcomes [of "startup_env\<lparr>Parse_err := Some (FlagsError ErrHelp ''Usage'')\<rparr>" startup_process]
    initArgparser_parse_outcomes [of "startup_env\<lparr>Parse_err := Some (FlagsError ErrUnknownFlag ''unknown flag x'')\<rparr>" startup_process]
    initArgparser_parse_outcomes [of "startup_env\<lparr>Parse_err := Some (OtherError ''boom'')\<rparr>" startup_process]
    initArgparser_parse_outcomes [of startup_env startup_process]
  by (simp add: startup_env_def startup_process_def)

subsection \<open>The steps after parsing\<close>

lemma default_steps:
  "(if Scrape_TimeProjects c = None then c'\<lparr>Scrape_TimeProjects := v\<rparr> else c') =
     c'\<lparr>Scrape_TimeProjects := (if Scrape_TimeProjects c = None then v else Scrape_TimeProjects c')\<rparr>"
  "(if Scrape_TimeRepository c = None then c'\<lparr>Scrape_TimeRepository := v\<rparr> else c') =
     c'\<lparr>Scrape_TimeRepository := (if Scrape_TimeRepository c = None then v else Scrape_TimeRepository c')\<rparr>"
  "(if Scrape_TimePullRequest c = None then c'\<lparr>Scrape_TimePullRequest := v\<rparr> else c') =
     c'\<lparr>Scrape_TimePullRequest := (if Scrape_TimePullRequest c = None then v else Scrape_TimePullRequest c')\<rparr>"
  "(if Scrape_TimeBuild c = None then c'\<lparr>Scrape_TimeBuild := v\<rparr> else c') =
     c'\<lparr>Scrape_TimeBuild := (if Scrape_TimeBuild c = None then v else Scrape_TimeBuild c')\<rparr>"
  "(if Scrape_TimeRelease c = None then c'\<lparr>Scrape_TimeRelease := v\<rparr> else c') =
     c'\<lparr>Scrape_TimeRelease := (if Scrape_TimeRelease c = None then v else Scrape_TimeRelease c')\<rparr>"
  "(if Scrape_TimeDeployment c = None then c'\<lparr>Scrape_TimeDeployment := v\<rparr> else c') =
     c'\<lparr>Scrape_TimeDeployment := (if Scrape_TimeDeployment c = None then v else Scrape_TimeDeployment c')\<rparr>"
  "(if Scrape_TimeStats c = None then c'\<lparr>Scrape_TimeStats := v\<rparr> else c') =
     c'\<lparr>Scrape_TimeStats := (if Scrape_TimeStats c = None then v else Scrape_TimeStats c')\<rparr>"
  "(if Scrape_TimeResourceUsage c = None then c'\<lparr>Scrape_TimeResourceUsage := v\<rparr> else c') =
     c'\<lparr>Scrape_TimeResourceUsage := (if Scrape_TimeResourceUsage c = None then v else Scrape_TimeResourceUsage c')\<rparr>"
  "(if Stats_SummaryMaxAge c = None then c'\<lparr>Stats_SummaryMaxAge := v\<rparr> else c') =
     c'\<lparr>Stats_SummaryMaxAge := (if Stats_SummaryMaxAge c = None then v else Stats_SummaryMaxAge c')\<rparr>"
  "(if Scrape_TimeQuery c = None then c'\<lparr>Scrape_TimeQuery := v\<rparr> else c') =
     c'\<lparr>Scrape_TimeQuery := (if Scrape_TimeQuery c = None then v else Scrape_TimeQuery c')\<rparr>"
  by simp_all

lemma default_scrape_times_eq:
  "default_scrape_times cfg =
     cfg\<lparr>Scrape_TimeProjects :=
           (if Scrape_TimeProjects cfg = None then Some (Scrape_Time cfg) else Scrape_TimeProjects cfg),
         Scrape_TimeRepository :=
           (if Scrape_TimeRepository cfg = None then Some (Scrape_Time cfg) else Scrape_TimeRepository cfg),
         Scrape_TimePullRequest :=
           (if Scrape_TimePullRequest cfg = None then Some (Scrape_Time cfg) else Scrape_TimePullRequest cfg),
         Scrape_TimeBuild :=
           (if Scrape_TimeBuild cfg = None then Some (Scrape_Time cfg) else Scrape_TimeBuild cfg),
         Scrape_TimeRelease :=
           (if Scrape_TimeRelease cfg = None then Some (Scrape_Time cfg) else Scrape_TimeRelease cfg),
         Scrape_TimeDeployment :=
           (if Scrape_TimeDeployment cfg = None then Some (Scrape_Time cfg) else Scrape_TimeDeployment cfg),
         Scrape_TimeStats :=
           (if Scrape_TimeStats cfg = None then Some (Scrape_Time cfg) else Scrape_TimeStats cfg),
         Scrape_TimeResourceUsage :=
           (if Scrape_TimeResourceUsage cfg = None then Some (Scrape_Time cfg) else Scrape_TimeResourceUsage cfg),
         Stats_SummaryMaxAge :=
           (if Stats_SummaryMaxAge cfg = None
            then (if Scrape_TimeStats cfg = None then Some (Scrape_Time cfg) else Scrape_TimeStats cfg)
            else Stats_SummaryMaxAge cfg),
         Scrape_TimeQuery :=
           (if Scrape_TimeQuery cfg = None then Some (Scrape_Time cfg) else Scrape_TimeQuery cfg)\<rparr>"
  unfolding default_scrape_times_def
  by (simp add: default_steps Let_def cong: if_cong)

lemma and_then_Returned: "and_then x f = Returned p' \<longleftrightarrow> (\<exists>p1. x = Returned p1 \<and> f p1 = Returned p')"
  by (cases x) simp_all

lemma opts_configure_logger [simp]: "opts (configure_logger p) = opts p"
  and stdout_configure_logger [simp]: "stdout (configure_logger p) = stdout p"
  by (simp_all add: configure_logger_def Let_def)

lemma load_access_token_Returned:
  assumes "load_access_token env p = Returned p1"
  shows "stdout p1 = stdout p"
    and "\<exists>token. opts p1 = (opts p)\<lparr>AzureDevops_AccessToken := token\<rparr> \<and>
          (\<forall>file. AzureDevops_AccessTokenFile (opts p) = Some file \<and> file \<noteq> [] \<longrightarrow>
             (\<exists>val. ReadFile env file = Inr val \<and> token = TrimSpace val)) \<and>
          (AzureDevops_AccessTokenFile (opts p) = None \<or> AzureDevops_AccessTokenFile (opts p) = Some [] \<longrightarrow>
             token = AzureDevops_AccessToken (opts p))"
  using assms
  by (auto simp: load_access_token_def log_Info_def Let_def split: option.splits if_splits sum.splits)

lemma check_queries_result:
  "check_queries qs (e, out) =
     (e \<or> (\<exists>q \<in> set qs. Count q (CHR ''@'') \<noteq> 1),
      out @ map malformed_query_line (filter (\<lambda>q. Count q (CHR ''@'') \<noteq> 1) qs))"
  by (induction qs arbitrary: e out) auto

lemma validate_queries_eq:
  "validate_queries p =
     (if \<forall>q \<in> set (AzureDevops_QueriesWithProjects (opts p)). Count q (CHR ''@'') = 1
      then Returned p
      else Exited 1 (p\<lparr>stdout := stdout p @ map malformed_query_line
             (filter (\<lambda>q. Count q (CHR ''@'') \<noteq> 1) (AzureDevops_QueriesWithProjects (opts p)))\<rparr>))"
proof -
  have "filter (\<lambda>q. Count q (CHR ''@'') \<noteq> 1) qs = []" if "\<forall>q \<in> set qs. Count q (CHR ''@'') = 1"
    for qs :: "string list"
    using that by (induction qs) auto
  then show ?thesis
    by (auto simp: validate_queries_def check_queries_result Let_def)
qed

lemma Count_zero: "Count q c = 0 \<longleftrightarrow> c \<notin> set q"
  by (induction q) (auto simp: Count_def)

lemma after_parse_Returned:
  assumes "after_parse env p = Returned p'"
  shows "\<exists>p1. load_access_token env (configure_logger p) = Returned p1 \<and>
           AzureDevops_AccessToken (opts p1) \<noteq> [] \<and>
           (\<forall>q \<in> set (AzureDevops_QueriesWithProjects (opts p1)). Count q (CHR ''@'') = 1) \<and>
           p' = p1\<lparr>opts := default_scrape_times (opts p1)\<rparr> \<and>
           Getenv env ''AZURE_DEVOPS_FILTER_AGENTPOOL'' = []"
proof -
  from assms obtain p1 p2 p3 where 1: "load_access_token env (configure_logger p) = Returned p1"
    and 2: "require_access_token p1 = Returned p2"
    and 3: "validate_queries p2 = Returned p3"
    and 4: "check_deprecated_env env (p3\<lparr>opts := default_scrape_times (opts p3)\<rparr>) = Returned p'"
    unfolding after_parse_def and_then_Returned by auto
  from 2 have "p2 = p1" and "AzureDevops_AccessToken (opts p1) \<noteq> []"
    by (auto simp: require_access_token_def split: if_splits)
  moreover from 3 have "p3 = p2"
    and "\<forall>q \<in> set (AzureDevops_QueriesWithProjects (opts p2)). Count q (CHR ''@'') = 1"
    by (auto simp: validate_queries_eq split: if_splits)
  moreover from 4 have "p' = p3\<lparr>opts := default_scrape_times (opts p3)\<rparr>"
    and "Getenv env ''AZURE_DEVOPS_FILTER_AGENTPOOL'' = []"
    by (auto simp: check_deprecated_env_def split: if_splits)
  ultimately show ?thesis
    using 1 by auto
qed

lemma initArgparser_Returned:
  assumes "initArgparser env p = Returned p'"
  shows "Parse_err env = None \<and> after_parse env (p\<lparr>opts := Parse_opts env\<rparr>) = Returned p'"
  using assms
  by (auto simp: initArgparser_def parse_arguments_def Let_def split: option.splits if_splits)

lemma initArgparser_returns:
  assumes "Parse_err env = None"
    and "load_access_token env (configure_logger (p\<lparr>opts := Parse_opts env\<rparr>)) = Returned p1"
    and "AzureDevops_AccessToken (opts p1) \<noteq> []"
    and "\<forall>q \<in> set (AzureDevops_QueriesWithProjects (opts p1)). Count q (CHR ''@'') = 1"
    and "Getenv env ''AZURE_DEVOPS_FILTER_AGENTPOOL'' = []"
  shows "initArgparser env p = Returned (p1\<lparr>opts := default_scrape_times (opts p1)\<rparr>)"
  using assms
  by (simp add: initArgparser_def parse_arguments_def after_parse_def require_access_token_def
      validate_queries_eq check_deprecated_env_def)

lemma initArgparser_no_token:
  assumes "Parse_err env = None"
    and "load_access_token env (configure_logger (p\<lparr>opts := Parse_opts env\<rparr>)) = Returned p1"
    and "AzureDevops_AccessToken (opts p1) = []"
  shows "initArgparser env p = Panicked ''no Azure DevOps access token specified'' p1"
  using assms
  by (simp add: initArgparser_def parse_arguments_def after_parse_def require_access_token_def)

lemma initArgparser_malformed:
  assumes "Parse_err env = None"
    and "load_access_token env (configure_logger (p\<lparr>opts := Parse_opts env\<rparr>)) = Returned p1"
    and "AzureDevops_AccessToken (opts p1) \<noteq> []"
    and "\<not> (\<forall>q \<in> set (AzureDevops_QueriesWithProjects (opts p1)). Count q (CHR ''@'') = 1)"
  shows "initArgparser env p =
     Exited 1 (p1\<lparr>stdout := stdout p1 @ map malformed_query_line
        (filter (\<lambda>q. Count q (CHR ''@'') \<noteq> 1) (AzureDevops_QueriesWithProjects (opts p1)))\<rparr>)"
proof -
  from assms(4) have "validate_queries p1 =
     Exited 1 (p1\<lparr>stdout := stdout p1 @ map malformed_query_line
        (filter (\<lambda>q. Count q (CHR ''@'') \<noteq> 1) (AzureDevops_QueriesWithProjects (opts p1)))\<rparr>)"
    unfolding validate_queries_eq by (rule if_not_P)
  with assms(1-3) show ?thesis
    by (simp add: initArgparser_def parse_arguments_def after_parse_def require_access_token_def)
qed

subsection \<open>Trimming\<close>

text \<open>
  What \<open>TrimSpace\<close> returns is a part of its argument that neither starts nor ends
  with white space.
\<close>

lemma leading_space_zero: "leading_space s = 0 \<longleftrightarrow> (\<forall>e \<in> set space_encodings. take (length e) s \<noteq> e)"
proof (cases "find (\<lambda>e. take (length e) s = e) space_encodings")
  case None
  then have "leading_space s = 0"
    by (simp add: leading_space_def)
  moreover from None have "\<forall>e \<in> set space_encodings. take (length e) s \<noteq> e"
    by (simp add: find_None_iff)
  ultimately show ?thesis
    by simp
next
  case (Some e)
  then have e: "e \<in> set space_encodings" "take (length e) s = e"
    by (auto simp: find_Some_iff)
  have "[] \<notin> set space_encodings"
    by (simp add: space_encodings_def)
  with e have "e \<noteq> []"
    by auto
  with Some have "leading_space s \<noteq> 0"
    by (simp add: leading_space_def)
  with e show ?thesis
    by blast
qed

lemma trailing_space_zero:
  "trailing_space s = 0 \<longleftrightarrow> (\<forall>e \<in> set space_encodings. take (length e) (rev s) \<noteq> rev e)"
proof (cases "find (\<lambda>e. take (length e) (rev s) = rev e) space_encodings")
  case None
  then have "trailing_space s = 0"
    by (simp add: trailing_space_def)
  moreover from None have "\<forall>e \<in> set space_encodings. take (length e) (rev s) \<noteq> rev e"
    by (simp add: find_None_iff)
  ultimately show ?thesis
    by simp
next
  case (Some e)
  then have e: "e \<in> set space_encodings" "take (length e) (rev s) = rev e"
    by (auto simp: find_Some_iff)
  have "[] \<notin> set space_encodings"
    by (simp add: space_encodings_def)
  with e have "e \<noteq> []"
    by auto
  with Some have "trailing_space s \<noteq> 0"
    by (simp add: trailing_space_def)
  with e show ?thesis
    by blast
qed

lemma TrimLeftFunc_suffix: "\<exists>l. s = l @ TrimLeftFunc s"
proof (induction s rule: TrimLeftFunc.induct)
  case (1 s)
  show ?case
  proof (cases "leading_space s = 0")
    case True
    then show ?thesis
      by (simp add: TrimLeftFunc.simps [of s])
  next
    case False
    from 1 [OF False] obtain l where "drop (leading_space s) s = l @ TrimLeftFunc (drop (leading_space s) s)"
      by blast
    then have "s = (take (leading_space s) s @ l) @ TrimLeftFunc (drop (leading_space s) s)"
      by (metis append.assoc append_take_drop_id)
    with False have "s = (take (leading_space s) s @ l) @ TrimLeftFunc s"
      by (simp add: TrimLeftFunc.simps [of s])
    then show ?thesis ..
  qed
qed

lemma TrimLeftFunc_trimmed: "leading_space (TrimLeftFunc s) = 0"
proof (induction s rule: TrimLeftFunc.induct)
  case (1 s)
  then show ?case
    by (cases "leading_space s = 0") (simp_all add: TrimLeftFunc.simps [of s])
qed

lemma TrimRightFunc_prefix: "\<exists>n. TrimRightFunc s = take n s"
proof (induction s rule: TrimRightFunc.induct)
  case (1 s)
  show ?case
  proof (cases "trailing_space s = 0")
    case True
    then have "TrimRightFunc s = take (length s) s"
      by (simp add: TrimRightFunc.simps [of s])
    then show ?thesis ..
  next
    case False
    from 1 [OF False] obtain n where
      "TrimRightFunc (take (length s - trailing_space s) s) = take n (take (length s - trailing_space s) s)"
      by blast
    with False have "TrimRightFunc s = take (min n (length s - trailing_space s)) s"
      by (simp add: TrimRightFunc.simps [of s])
    then show ?thesis ..
  qed
qed

lemma TrimRightFunc_trimmed: "trailing_space (TrimRightFunc s) = 0"
proof (induction s rule: TrimRightFunc.induct)
  case (1 s)
  then show ?case
    by (cases "trailing_space s = 0") (simp_all add: TrimRightFunc.simps [of s])
qed

lemma leading_space_take: "leading_space s = 0 \<Longrightarrow> leading_space (take n s) = 0"
proof -
  assume z: "leading_space s = 0"
  have "take (length e) (take n s) \<noteq> e" if e: "e \<in> set space_encodings" for e
  proof
    assume eq: "take (length e) (take n s) = e"
    then have "length (take (length e) (take n s)) = length e"
      by simp
    then have "length e \<le> n" and "length e \<le> length s"
      by simp_all
    with eq have "take (length e) s = e"
      by (simp add: min_def)
    with z e show False
      by (simp add: leading_space_zero)
  qed
  then show ?thesis
    by (simp add: leading_space_zero)
qed

lemma TrimSpace_trimmed:
  "(\<exists>l r. s = l @ TrimSpace s @ r) \<and> leading_space (TrimSpace s) = 0 \<and> trailing_space (TrimSpace s) = 0"
proof -
  obtain l where l: "s = l @ TrimLeftFunc s"
    using TrimLeftFunc_suffix by blast
  obtain n where n: "TrimSpace s = take n (TrimLeftFunc s)"
    unfolding TrimSpace_def using TrimRightFunc_prefix by blast
  then have "TrimLeftFunc s = TrimSpace s @ drop n (TrimLeftFunc s)"
    by simp
  with l have "s = l @ TrimSpace s @ drop n (TrimLeftFunc s)"
    by simp
  moreover have "leading_space (TrimSpace s) = 0"
    unfolding n by (rule leading_space_take) (rule TrimLeftFunc_trimmed)
  moreover have "trailing_space (TrimSpace s) = 0"
    unfolding TrimSpace_def by (rule TrimRightFunc_trimmed)
  ultimately show ?thesis
    by blast
qed

lemma trim_example:
  "TrimSpace [CHR 0x20, CHR ''s'', CHR ''3'', CHR ''c'', CHR ''r'', CHR ''3'', CHR ''t'', CHR 0x0D, CHR 0x0A] = ''s3cr3t''"
  by code_simp

lemma trim_blank: "TrimSpace [CHR 0x20, CHR 0x0A] = []"
  by code_simp

subsection \<open>The startup scenario, step by step\<close>

lemma startup_load:
  assumes "AzureDevops_AccessTokenFile cfg = Some ''/run/secrets/token''"
  shows "load_access_token (startup_env\<lparr>Parse_opts := cfg\<rparr>)
           (configure_logger (startup_process\<lparr>opts := Parse_opts (startup_env\<lparr>Parse_opts := cfg\<rparr>)\<rparr>)) =
         Returned ((log_Info (''reading access token from file '' @ [CHR 0x22] @ ''/run/secrets/token'' @ [CHR 0x22])
                     (configure_logger (startup_process\<lparr>opts := cfg\<rparr>)))
                   \<lparr>opts := cfg\<lparr>AzureDevops_AccessToken := ''s3cr3t''\<rparr>\<rparr>)"
  using assms
  by (simp add: load_access_token_def startup_env_def Let_def log_Info_def trim_example)

lemma startup_env_simps:
  "Parse_err (startup_env\<lparr>Parse_opts := cfg\<rparr>) = None"
  "Parse_opts (startup_env\<lparr>Parse_opts := cfg\<rparr>) = cfg"
  "Getenv (startup_env\<lparr>Parse_opts := cfg\<rparr>) name = []"
  "startup_env\<lparr>Parse_opts := startup_opts\<rparr> = startup_env"
  "Getenv startup_env name = []"
  "Parse_err startup_env = None"
  "Parse_opts startup_env = startup_opts"
  by (simp_all add: startup_env_def)

lemma startup_opts_simps:
  "AzureDevops_AccessTokenFile startup_opts = Some ''/run/secrets/token''"
  "AzureDevops_QueriesWithProjects startup_opts = [''9f6a@2c1b'']"
  by (simp_all add: startup_opts_def)

lemma startup_returns:
  assumes "AzureDevops_AccessTokenFile cfg = Some ''/run/secrets/token''"
    and "\<forall>q \<in> set (AzureDevops_QueriesWithProjects cfg). Count q (CHR ''@'') = 1"
  shows "initArgparser (startup_env\<lparr>Parse_opts := cfg\<rparr>) startup_process =
      Returned ((log_Info (''reading access token from file '' @ [CHR 0x22] @ ''/run/secrets/token'' @ [CHR 0x22])
                     (configure_logger (startup_process\<lparr>opts := cfg\<rparr>)))
                   \<lparr>opts := default_scrape_times (cfg\<lparr>AzureDevops_AccessToken := ''s3cr3t''\<rparr>)\<rparr>)"
  using initArgparser_returns [where p = startup_process, OF _ startup_load [OF assms(1)]] assms(2)
  by (simp add: startup_env_simps)

subsection \<open>The query descriptors\<close>

text \<open>
  C4. The check of the query descriptors lets startup pass exactly when every
  configured descriptor holds the delimiter \<open>@\<close> once; otherwise it prints one line
  for each malformed descriptor and exits with status 1. So \<open>initArgparser\<close> returns
  only when every descriptor contains the delimiter; and when startup reaches the
  check (the arguments were parsed and the access token is there), a descriptor
  without the delimiter makes it exit with status 1 after printing the line that names
  that descriptor and tells what is wrong with it and what it should be: the words
  \<open>Query path '\<close>, the descriptor, and \<open>' is malformed; should be '<query UUID>@<project UUID>'\<close>,
  with a space between them and a newline at the end.
\<close>

theorem malformed_query_aborts:
  "(initArgparser env p = Returned p' \<longrightarrow>
      (\<forall>q \<in> set (AzureDevops_QueriesWithProjects (Parse_opts env)).
         Count q (CHR ''@'') = 1 \<and> CHR ''@'' \<in> set q)) \<and>
   (Parse_err env = None \<and>
    load_access_token env (configure_logger (p\<lparr>opts := Parse_opts env\<rparr>)) = Returned p1 \<and>
    AzureDevops_AccessToken (opts p1) \<noteq> [] \<and>
    q \<in> set (AzureDevops_QueriesWithProjects (Parse_opts env)) \<and> CHR ''@'' \<notin> set q \<longrightarrow>
      (\<exists>p2. initArgparser env p = Exited 1 p2 \<and>
         (''Query path '' @ [CHR 0x27] @ '' '' @ q @ '' '' @ [CHR 0x27]
             @ '' is malformed; should be '' @ [CHR 0x27] @ ''<query UUID>@<project UUID>'' @ [CHR 0x27]
             @ [CHR 0x0A]) \<in> set (stdout p2))) \<and>
   validate_queries p =
     (if \<forall>q \<in> set (AzureDevops_QueriesWithProjects (opts p)). Count q (CHR ''@'') = 1
      then Returned p
      else Exited 1 (p\<lparr>stdout := stdout p @ map malformed_query_line
             (filter (\<lambda>q. Count q (CHR ''@'') \<noteq> 1) (AzureDevops_QueriesWithProjects (opts p)))\<rparr>))"
proof (intro conjI impI)
  assume "initArgparser env p = Returned p'"
  then have "after_parse env (p\<lparr>opts := Parse_opts env\<rparr>) = Returned p'"
    by (simp add: initArgparser_Returned)
  from after_parse_Returned [OF this] obtain p1 where
    l: "load_access_token env (configure_logger (p\<lparr>opts := Parse_opts env\<rparr>)) = Returned p1"
    and q: "\<forall>q \<in> set (AzureDevops_QueriesWithProjects (opts p1)). Count q (CHR ''@'') = 1"
    by blast
  from load_access_token_Returned(2) [OF l]
  have "AzureDevops_QueriesWithProjects (opts p1) = AzureDevops_QueriesWithProjects (Parse_opts env)"
    by auto
  with q have "\<forall>q \<in> set (AzureDevops_QueriesWithProjects (Parse_opts env)). Count q (CHR ''@'') = 1"
    by simp
  moreover have "c \<in> set s" if "Count s c = 1" for s :: string and c
    using that Count_zero [of s c] by auto
  ultimately show "\<forall>q \<in> set (AzureDevops_QueriesWithProjects (Parse_opts env)).
      Count q (CHR ''@'') = 1 \<and> CHR ''@'' \<in> set q"
    by blast
next
  assume a: "Parse_err env = None \<and>
    load_access_token env (configure_logger (p\<lparr>opts := Parse_opts env\<rparr>)) = Returned p1 \<and>
    AzureDevops_AccessToken (opts p1) \<noteq> [] \<and>
    q \<in> set (AzureDevops_QueriesWithProjects (Parse_opts env)) \<and> CHR ''@'' \<notin> set q"
  from a have l: "load_access_token env (configure_logger (p\<lparr>opts := Parse_opts env\<rparr>)) = Returned p1"
    by simp
  from load_access_token_Returned(2) [OF l]
  have qs: "AzureDevops_QueriesWithProjects (opts p1) = AzureDevops_QueriesWithProjects (Parse_opts env)"
    by auto
  from a have "Count q (CHR ''@'') = 0"
    by (simp add: Count_zero)
  with a qs have bad: "\<not> (\<forall>q \<in> set (AzureDevops_QueriesWithProjects (opts p1)). Count q (CHR ''@'') = 1)"
    and "q \<in> set (filter (\<lambda>q. Count q (CHR ''@'') \<noteq> 1) (AzureDevops_QueriesWithProjects (opts p1)))"
    by force+
  with initArgparser_malformed [of env p p1] a
  have "\<exists>p2. initArgparser env p = Exited 1 p2 \<and> malformed_query_line q \<in> set (stdout p2)"
    by auto
  then show "\<exists>p2. initArgparser env p = Exited 1 p2 \<and>
         (''Query path '' @ [CHR 0x27] @ '' '' @ q @ '' '' @ [CHR 0x27]
             @ '' is malformed; should be '' @ [CHR 0x27] @ ''<query UUID>@<project UUID>'' @ [CHR 0x27]
             @ [CHR 0x0A]) \<in> set (stdout p2)"
    by (simp add: malformed_query_line_def)
next
  show "validate_queries p =
     (if \<forall>q \<in> set (AzureDevops_QueriesWithProjects (opts p)). Count q (CHR ''@'') = 1
      then Returned p
      else Exited 1 (p\<lparr>stdout := stdout p @ map malformed_query_line
             (filter (\<lambda>q. Count q (CHR ''@'') \<noteq> 1) (AzureDevops_QueriesWithProjects (opts p)))\<rparr>))"
    by (rule validate_queries_eq)
qed

theorem malformed_query_aborts_witness:
  "initArgparser
       (startup_env\<lparr>Parse_opts := startup_opts\<lparr>AzureDevops_QueriesWithProjects := [''9f6a@2c1b'', ''9f6a-2c1b'']\<rparr>\<rparr>)
       startup_process =
     Exited 1
       ((log_Info (''reading access token from file '' @ [CHR 0x22] @ ''/run/secrets/token'' @ [CHR 0x22])
           (configure_logger (startup_process\<lparr>opts :=
              startup_opts\<lparr>AzureDevops_QueriesWithProjects := [''9f6a@2c1b'', ''9f6a-2c1b'']\<rparr>\<rparr>)))
         \<lparr>opts := startup_opts\<lparr>AzureDevops_QueriesWithProjects := [''9f6a@2c1b'', ''9f6a-2c1b''],
                                AzureDevops_AccessToken := ''s3cr3t''\<rparr>,
          stdout := [''Query path '' @ [CHR 0x27] @ '' 9f6a-2c1b '' @ [CHR 0x27]
                       @ '' is malformed; should be '' @ [CHR 0x27] @ ''<query UUID>@<project UUID>''
                       @ [CHR 0x27] @ [CHR 0x0A]]\<rparr>) \<and>
   (\<exists>p'. initArgparser startup_env startup_process = Returned p') \<and>
   Count ''9f6a@2c1b'' (CHR ''@'') = 1"
proof -
  let ?cfg = "startup_opts\<lparr>AzureDevops_QueriesWithProjects := [''9f6a@2c1b'', ''9f6a-2c1b'']\<rparr>"
  let ?p1 = "(log_Info (''reading access token from file '' @ [CHR 0x22] @ ''/run/secrets/token'' @ [CHR 0x22])
            (configure_logger (startup_process\<lparr>opts := ?cfg\<rparr>)))
          \<lparr>opts := ?cfg\<lparr>AzureDevops_AccessToken := ''s3cr3t''\<rparr>\<rparr>"
  have out: "stdout (log_Info m x) = stdout x" "stdout startup_process = []" for m x
    by (simp_all add: log_Info_def startup_process_def)
  have "\<exists>p2. initArgparser (startup_env\<lparr>Parse_opts := ?cfg\<rparr>) startup_process = Exited 1 p2 \<and>
      (''Query path '' @ [CHR 0x27] @ '' '' @ ''9f6a-2c1b'' @ '' '' @ [CHR 0x27]
         @ '' is malformed; should be '' @ [CHR 0x27] @ ''<query UUID>@<project UUID>'' @ [CHR 0x27]
         @ [CHR 0x0A]) \<in> set (stdout p2)"
    using malformed_query_aborts [of "startup_env\<lparr>Parse_opts := ?cfg\<rparr>" startup_process startup_process
        ?p1 "''9f6a-2c1b''"]
      startup_load [of ?cfg]
    by (simp add: startup_env_simps startup_opts_simps)
  moreover have "initArgparser (startup_env\<lparr>Parse_opts := ?cfg\<rparr>) startup_process =
      Exited 1 (?p1\<lparr>stdout := [malformed_query_line ''9f6a-2c1b'']\<rparr>)"
    using initArgparser_malformed [of "startup_env\<lparr>Parse_opts := ?cfg\<rparr>" startup_process ?p1]
      startup_load [of ?cfg]
    by (simp add: startup_env_simps startup_opts_simps out Count_def)
  moreover have "\<exists>p'. initArgparser startup_env startup_process = Returned p'"
    using startup_returns [of startup_opts]
    by (simp add: startup_env_simps startup_opts_simps Count_def)
  ultimately show ?thesis
    by (simp add: Count_def malformed_query_line_def)
qed

subsection \<open>The access token\<close>

lemma AccessToken_default_scrape_times [simp]:
  "AzureDevops_AccessToken (default_scrape_times cfg) = AzureDevops_AccessToken cfg"
  by (simp add: default_scrape_times_eq)

text \<open>
  C6. When startup returns, the access token is not empty. When an access-token file
  is configured (a path that is not empty), the token is then the content of that file
  with the white space at both ends trimmed off: a part of the content that neither
  starts nor ends with white space; when no file is configured, the token is the
  configured value. When the token is empty after that (the file holds white space
  only, or no file and no value is configured), the process panics at startup; it also
  panics when the configured file cannot be read.
\<close>

theorem access_token_sourcing:
  "(initArgparser env p = Returned p' \<longrightarrow>
      AzureDevops_AccessToken (opts p') \<noteq> [] \<and>
      (\<forall>file. AzureDevops_AccessTokenFile (Parse_opts env) = Some file \<and> file \<noteq> [] \<longrightarrow>
         (\<exists>val l r. ReadFile env file = Inr val \<and>
            AzureDevops_AccessToken (opts p') = TrimSpace val \<and>
            val = l @ AzureDevops_AccessToken (opts p') @ r \<and>
            leading_space (AzureDevops_AccessToken (opts p')) = 0 \<and>
            trailing_space (AzureDevops_AccessToken (opts p')) = 0)) \<and>
      (AzureDevops_AccessTokenFile (Parse_opts env) = None \<or>
       AzureDevops_AccessTokenFile (Parse_opts env) = Some [] \<longrightarrow>
         AzureDevops_AccessToken (opts p') = AzureDevops_AccessToken (Parse_opts env))) \<and>
   (Parse_err env = None \<and> AzureDevops_AccessTokenFile (Parse_opts env) = Some file \<and> file \<noteq> [] \<and>
    ReadFile env file = Inr val \<and> TrimSpace val = [] \<longrightarrow>
      (\<exists>p2. initArgparser env p = Panicked ''no Azure DevOps access token specified'' p2)) \<and>
   (Parse_err env = None \<and>
    (AzureDevops_AccessTokenFile (Parse_opts env) = None \<or>
     AzureDevops_AccessTokenFile (Parse_opts env) = Some []) \<and>
    AzureDevops_AccessToken (Parse_opts env) = [] \<longrightarrow>
      (\<exists>p2. initArgparser env p = Panicked ''no Azure DevOps access token specified'' p2)) \<and>
   (Parse_err env = None \<and> AzureDevops_AccessTokenFile (Parse_opts env) = Some file \<and> file \<noteq> [] \<and>
    ReadFile env file = Inl err \<longrightarrow>
      (\<exists>msg p2. initArgparser env p = Panicked msg p2))"
proof (intro conjI impI)
  assume r: "initArgparser env p = Returned p'"
  then have "after_parse env (p\<lparr>opts := Parse_opts env\<rparr>) = Returned p'"
    by (simp add: initArgparser_Returned)
  from after_parse_Returned [OF this] obtain p1 where
    l: "load_access_token env (configure_logger (p\<lparr>opts := Parse_opts env\<rparr>)) = Returned p1"
    and ne: "AzureDevops_AccessToken (opts p1) \<noteq> []"
    and p': "p' = p1\<lparr>opts := default_scrape_times (opts p1)\<rparr>"
    by blast
  from p' have t: "AzureDevops_AccessToken (opts p') = AzureDevops_AccessToken (opts p1)"
    by simp
  with ne show "AzureDevops_AccessToken (opts p') \<noteq> []"
    by simp
  from load_access_token_Returned(2) [OF l] obtain token where
    o: "opts p1 = (Parse_opts env)\<lparr>AzureDevops_AccessToken := token\<rparr>"
    and c1: "\<forall>file. AzureDevops_AccessTokenFile (Parse_opts env) = Some file \<and> file \<noteq> [] \<longrightarrow>
             (\<exists>val. ReadFile env file = Inr val \<and> token = TrimSpace val)"
    and c2: "AzureDevops_AccessTokenFile (Parse_opts env) = None \<or>
             AzureDevops_AccessTokenFile (Parse_opts env) = Some [] \<longrightarrow>
             token = AzureDevops_AccessToken (Parse_opts env)"
    by auto
  from o t have tok: "AzureDevops_AccessToken (opts p') = token"
    by simp
  show "\<forall>file. AzureDevops_AccessTokenFile (Parse_opts env) = Some file \<and> file \<noteq> [] \<longrightarrow>
         (\<exists>val l r. ReadFile env file = Inr val \<and>
            AzureDevops_AccessToken (opts p') = TrimSpace val \<and>
            val = l @ AzureDevops_AccessToken (opts p') @ r \<and>
            leading_space (AzureDevops_AccessToken (opts p')) = 0 \<and>
            trailing_space (AzureDevops_AccessToken (opts p')) = 0)"
  proof (intro allI impI)
    fix f
    assume "AzureDevops_AccessTokenFile (Parse_opts env) = Some f \<and> f \<noteq> []"
    with c1 obtain val where v: "ReadFile env f = Inr val" "token = TrimSpace val"
      by blast
    with TrimSpace_trimmed [of val] tok
    show "\<exists>val l r. ReadFile env f = Inr val \<and>
            AzureDevops_AccessToken (opts p') = TrimSpace val \<and>
            val = l @ AzureDevops_AccessToken (opts p') @ r \<and>
            leading_space (AzureDevops_AccessToken (opts p')) = 0 \<and>
            trailing_space (AzureDevops_AccessToken (opts p')) = 0"
      by auto
  qed
  assume "AzureDevops_AccessTokenFile (Parse_opts env) = None \<or>
       AzureDevops_AccessTokenFile (Parse_opts env) = Some []"
  with c2 tok show "AzureDevops_AccessToken (opts p') = AzureDevops_AccessToken (Parse_opts env)"
    by blast
next
  assume a: "Parse_err env = None \<and> AzureDevops_AccessTokenFile (Parse_opts env) = Some file \<and> file \<noteq> [] \<and>
    ReadFile env file = Inr val \<and> TrimSpace val = []"
  then obtain p1 where "load_access_token env (configure_logger (p\<lparr>opts := Parse_opts env\<rparr>)) = Returned p1"
    and "AzureDevops_AccessToken (opts p1) = []"
    by (simp add: load_access_token_def Let_def log_Info_def)
  with a initArgparser_no_token [of env p p1]
  show "\<exists>p2. initArgparser env p = Panicked ''no Azure DevOps access token specified'' p2"
    by simp
next
  assume a: "Parse_err env = None \<and>
    (AzureDevops_AccessTokenFile (Parse_opts env) = None \<or>
     AzureDevops_AccessTokenFile (Parse_opts env) = Some []) \<and>
    AzureDevops_AccessToken (Parse_opts env) = []"
  then obtain p1 where "load_access_token env (configure_logger (p\<lparr>opts := Parse_opts env\<rparr>)) = Returned p1"
    and "AzureDevops_AccessToken (opts p1) = []"
    by (auto simp: load_access_token_def)
  with a initArgparser_no_token [of env p p1]
  show "\<exists>p2. initArgparser env p = Panicked ''no Azure DevOps access token specified'' p2"
    by simp
next
  assume a: "Parse_err env = None \<and> AzureDevops_AccessTokenFile (Parse_opts env) = Some file \<and> file \<noteq> [] \<and>
    ReadFile env file = Inl err"
  then show "\<exists>msg p2. initArgparser env p = Panicked msg p2"
    by (simp add: initArgparser_def parse_arguments_def after_parse_def load_access_token_def Let_def)
qed

theorem access_token_sourcing_witness:
  "(\<exists>p'. initArgparser startup_env startup_process = Returned p' \<and>
      AzureDevops_AccessToken (opts p') = ''s3cr3t'') \<and>
   (\<exists>p2. initArgparser (startup_env\<lparr>ReadFile := \<lambda>file. Inr [CHR 0x20, CHR 0x0A]\<rparr>) startup_process =
      Panicked ''no Azure DevOps access token specified'' p2) \<and>
   (\<exists>p2. initArgparser (startup_env\<lparr>Parse_opts := startup_opts\<lparr>AzureDevops_AccessTokenFile := None\<rparr>\<rparr>)
      startup_process = Panicked ''no Azure DevOps access token specified'' p2)"
proof -
  have "initArgparser startup_env startup_process =
      Returned ((log_Info (''reading access token from file '' @ [CHR 0x22] @ ''/run/secrets/token'' @ [CHR 0x22])
                     (configure_logger (startup_process\<lparr>opts := startup_opts\<rparr>)))
                   \<lparr>opts := default_scrape_times (startup_opts\<lparr>AzureDevops_AccessToken := ''s3cr3t''\<rparr>)\<rparr>)"
    using startup_returns [of startup_opts]
    by (simp add: startup_env_simps startup_opts_simps Count_def)
  then have 1: "\<exists>p'. initArgparser startup_env startup_process = Returned p' \<and>
      AzureDevops_AccessToken (opts p') = ''s3cr3t''"
    by simp
  have 2: "\<exists>p2. initArgparser (startup_env\<lparr>ReadFile := \<lambda>file. Inr [CHR 0x20, CHR 0x0A]\<rparr>) startup_process =
      Panicked ''no Azure DevOps access token specified'' p2"
    using access_token_sourcing [of "startup_env\<lparr>ReadFile := \<lambda>file. Inr [CHR 0x20, CHR 0x0A]\<rparr>"
        startup_process startup_process "''/run/secrets/token''" "[CHR 0x20, CHR 0x0A]"]
    by (simp add: startup_env_simps startup_opts_simps trim_blank)
  have 3: "\<exists>p2. initArgparser (startup_env\<lparr>Parse_opts := startup_opts\<lparr>AzureDevops_AccessTokenFile := None\<rparr>\<rparr>)
      startup_process = Panicked ''no Azure DevOps access token specified'' p2"
    using access_token_sourcing [of "startup_env\<lparr>Parse_opts := startup_opts\<lparr>AzureDevops_AccessTokenFile := None\<rparr>\<rparr>"
        startup_process startup_process]
    by (simp add: startup_env_simps startup_opts_def)
  from 1 2 3 show ?thesis
    by blast
qed

subsection \<open>The collectors\<close>

lemma collector_block_Some:
  "collector_block (Some t) n (create_General n' pr) p = Returned
     (p\<lparr>collectorGeneralList := (collectorGeneralList p)
          (n' := if 0 < t then Some (SetScrapeTime t (NewCollectorGeneral n' pr)) else collectorGeneralList p n'),
       log_lines := log_lines p @ (if 0 < t then [] else [LogLine InfoLevel Map.empty (disabled_line n)])\<rparr>)"
  "collector_block (Some t) n (create_Project n' pr) p = Returned
     (p\<lparr>collectorProjectList := (collectorProjectList p)
          (n' := if 0 < t then Some (SetScrapeTime t (NewCollectorProject n' pr)) else collectorProjectList p n'),
       log_lines := log_lines p @ (if 0 < t then [] else [LogLine InfoLevel Map.empty (disabled_line n)])\<rparr>)"
  "collector_block (Some t) n (create_AgentPool n' pr) p = Returned
     (p\<lparr>collectorAgentPoolList := (collectorAgentPoolList p)
          (n' := if 0 < t then Some (SetScrapeTime t ((NewCollectorAgentPool n' pr)
                                  \<lparr>AgentPoolIdList := AzureDevops_AgentPoolIdList (opts p)\<rparr>))
                else collectorAgentPoolList p n'),
       log_lines := log_lines p @ (if 0 < t then [] else [LogLine InfoLevel Map.empty (disabled_line n)])\<rparr>)"
  "collector_block (Some t) n (create_Query n' pr) p = Returned
     (p\<lparr>collectorQueryList := (collectorQueryList p)
          (n' := if 0 < t then Some (SetScrapeTime t ((NewCollectorQuery n' pr)
                                  \<lparr>QueryList := AzureDevops_QueriesWithProjects (opts p)\<rparr>))
                else collectorQueryList p n'),
       log_lines := log_lines p @ (if 0 < t then [] else [LogLine InfoLevel Map.empty (disabled_line n)])\<rparr>)"
  by (simp_all add: collector_block_def Seconds_positive_def create_General_def create_Project_def
      create_AgentPool_def create_Query_def log_Info_def)

lemma map_option_comp_upd:
  "map_option f \<circ> (m(n := x)) = (map_option f \<circ> m)(n := map_option f x)"
  "map_option f \<circ> Map.empty = Map.empty"
  by (auto simp: fun_eq_iff)

lemma map_option_if: "map_option f (if c then Some v else None) = (if c then Some (f v) else None)"
  by simp

lemma started_simps:
  "Run (SetScrapeTime t (NewCollectorGeneral n pr)) =
     \<lparr>collector_Name = n, collector_Processor = pr, scrapeTime = Some t, running = True\<rparr>"
  "Run (SetScrapeTime t (NewCollectorProject n pr)) =
     \<lparr>collector_Name = n, collector_Processor = pr, scrapeTime = Some t, running = True\<rparr>"
  "Run (SetScrapeTime t ((NewCollectorAgentPool n pr)\<lparr>AgentPoolIdList := ids\<rparr>)) =
     \<lparr>collector_Name = n, collector_Processor = pr, scrapeTime = Some t, running = True,
      AgentPoolIdList = ids\<rparr>"
  "Run (SetScrapeTime t ((NewCollectorQuery n pr)\<lparr>QueryList := qs\<rparr>)) =
     \<lparr>collector_Name = n, collector_Processor = pr, scrapeTime = Some t, running = True,
      QueryList = qs\<rparr>"
  by (simp_all add: Run_def SetScrapeTime_def NewCollectorGeneral_def NewCollectorProject_def
      NewCollectorAgentPool_def NewCollectorQuery_def)

lemma initMetricCollector_resolved:
  assumes "Scrape_TimeLive (opts p) = Some live"
    and "Scrape_TimeRepository (opts p) = Some repository"
    and "Scrape_TimePullRequest (opts p) = Some pullRequest"
    and "Scrape_TimeBuild (opts p) = Some build"
    and "Scrape_TimeRelease (opts p) = Some release"
    and "Scrape_TimeDeployment (opts p) = Some deployment"
    and "Scrape_TimeStats (opts p) = Some stats"
    and "Scrape_TimeResourceUsage (opts p) = Some resourceUsage"
    and "Scrape_TimeQuery (opts p) = Some query"
  shows "initMetricCollector p = Returned
     (p\<lparr>collectorGeneralList :=
          Map.empty(''General'' := enabled ''General'' Processor_General live,
                    ''ResourceUsage'' := enabled ''ResourceUsage'' Processor_ResourceUsage resourceUsage),
        collectorProjectList :=
          Map.empty(''Project'' := enabled ''Project'' Processor_Project live,
                    ''LatestBuild'' := enabled ''LatestBuild'' Processor_LatestBuild live,
                    ''Repository'' := enabled ''Repository'' Processor_Repository repository,
                    ''PullRequest'' := enabled ''PullRequest'' Processor_PullRequest pullRequest,
                    ''Build'' := enabled ''Build'' Processor_Build build,
                    ''Release'' := enabled ''Release'' Processor_Release release,
                    ''Deployment'' := enabled ''Deployment'' Processor_Deployment deployment,
                    ''Stats'' := enabled ''Stats'' Processor_Stats stats),
        collectorAgentPoolList :=
          Map.empty(''AgentPool'' :=
            (if 0 < live
             then Some \<lparr>collector_Name = ''AgentPool'', collector_Processor = Processor_AgentPool,
                        scrapeTime = Some live, running = True,
                        AgentPoolIdList = AzureDevops_AgentPoolIdList (opts p)\<rparr>
             else None)),
        collectorQueryList :=
          Map.empty(''Query'' :=
            (if 0 < query
             then Some \<lparr>collector_Name = ''Query'', collector_Processor = Processor_Query,
                        scrapeTime = Some query, running = True,
                        QueryList = AzureDevops_QueriesWithProjects (opts p)\<rparr>
             else None)),
        log_lines := log_lines p @ disabled ''General'' live @ disabled ''Project'' live
          @ disabled ''AgentPool'' live @ disabled ''LatestBuild'' live
          @ disabled ''Repository'' repository @ disabled ''PullRequest'' pullRequest
          @ disabled ''Build'' build @ disabled ''Release'' release
          @ disabled ''Deployment'' deployment @ disabled ''Stats'' stats
          @ disabled ''ResourceUsage'' resourceUsage @ disabled ''Query'' query\<rparr>)"
  using assms
  by (simp add: initMetricCollector_def collector_blocks_def collector_block_Some
      run_collectors_def map_option_comp_upd map_option_if started_simps enabled_def disabled_def
      disabled_line_def split del: if_split cong: if_cong)

lemma collector_block_opts:
  assumes "\<And>t q. opts (create t q) = opts q"
    and "collector_block i n create p = Returned p'"
  shows "opts p' = opts p"
  using assms
  by (auto simp: collector_block_def log_Info_def split: option.splits if_splits)

lemma create_opts [simp]:
  "opts (create_General n pr t p) = opts p"
  "opts (create_Project n pr t p) = opts p"
  "opts (create_AgentPool n pr t p) = opts p"
  "opts (create_Query n pr t p) = opts p"
  by (simp_all add: create_General_def create_Project_def create_AgentPool_def create_Query_def)

lemma collector_blocks_opts:
  "b \<in> set collector_blocks \<Longrightarrow> b p = Returned p' \<Longrightarrow> opts p' = opts p"
  unfolding collector_blocks_def
  by (auto dest!: collector_block_opts [rotated])

lemma foldl_and_then_opts:
  assumes "\<And>b q q'. b \<in> set bs \<Longrightarrow> b q = Returned q' \<Longrightarrow> opts q' = opts q"
    and "foldl and_then (Returned p) bs = Returned p'"
  shows "opts p' = opts p"
  using assms
proof (induction bs arbitrary: p' rule: rev_induct)
  case Nil
  then show ?case by simp
next
  case (snoc b bs)
  from snoc.prems(2) obtain q where q: "foldl and_then (Returned p) bs = Returned q" and b: "b q = Returned p'"
    by (auto simp: and_then_Returned)
  have "opts q = opts p"
  proof (rule snoc.IH [OF _ q])
    fix c r r'
    assume "c \<in> set bs" and "c r = Returned r'"
    then show "opts r' = opts r"
      using snoc.prems(1) [of c r r'] by simp
  qed
  moreover have "opts p' = opts q"
    using snoc.prems(1) [of b q p'] b by simp
  ultimately show ?case
    by simp
qed

lemma initMetricCollector_opts:
  assumes "initMetricCollector p = Returned p'"
  shows "opts p' = opts p"
proof -
  from assms obtain q where q: "foldl and_then
          (Returned (p\<lparr>collectorGeneralList := Map.empty, collectorProjectList := Map.empty,
                       collectorAgentPoolList := Map.empty, collectorQueryList := Map.empty\<rparr>))
          collector_blocks = Returned q"
    and p': "p' = run_collectors q"
    by (auto simp: initMetricCollector_def and_then_Returned)
  from foldl_and_then_opts [OF collector_blocks_opts q] have "opts q = opts p"
    by simp
  with p' show ?thesis
    by (simp add: run_collectors_def)
qed

lemma foldl_and_then_Panicked: "foldl and_then (Panicked msg p) bs = Panicked msg p"
  by (induction bs) simp_all

lemma initMetricCollector_nil_live:
  "Scrape_TimeLive (opts p) = None \<Longrightarrow> \<exists>p'. initMetricCollector p = Panicked nil_dereference p'"
  by (simp add: initMetricCollector_def collector_blocks_def collector_block_def foldl_and_then_Panicked)

text \<open>
  C10. Once every scrape interval that \<open>initMetricCollector\<close> reads is set, it
  returns, and for each of the twelve collectors: when its interval is positive, the
  collector has been created under its name with that interval and has been started;
  when its interval is zero or negative, no collector exists under that name, so it
  never runs, and the line \<open>collector[name]: disabled\<close> has been logged. The maps
  hold no other collector.
\<close>

theorem collectors_by_interval:
  assumes "Scrape_TimeLive (opts p) = Some live"
    and "Scrape_TimeRepository (opts p) = Some repository"
    and "Scrape_TimePullRequest (opts p) = Some pullRequest"
    and "Scrape_TimeBuild (opts p) = Some build"
    and "Scrape_TimeRelease (opts p) = Some release"
    and "Scrape_TimeDeployment (opts p) = Some deployment"
    and "Scrape_TimeStats (opts p) = Some stats"
    and "Scrape_TimeResourceUsage (opts p) = Some resourceUsage"
    and "Scrape_TimeQuery (opts p) = Some query"
  shows "\<exists>p'. initMetricCollector p = Returned p' \<and>
     collectorGeneralList p' =
       Map.empty(''General'' := enabled ''General'' Processor_General live,
                 ''ResourceUsage'' := enabled ''ResourceUsage'' Processor_ResourceUsage resourceUsage) \<and>
     collectorProjectList p' =
       Map.empty(''Project'' := enabled ''Project'' Processor_Project live,
                 ''LatestBuild'' := enabled ''LatestBuild'' Processor_LatestBuild live,
                 ''Repository'' := enabled ''Repository'' Processor_Repository repository,
                 ''PullRequest'' := enabled ''PullRequest'' Processor_PullRequest pullRequest,
                 ''Build'' := enabled ''Build'' Processor_Build build,
                 ''Release'' := enabled ''Release'' Processor_Release release,
                 ''Deployment'' := enabled ''Deployment'' Processor_Deployment deployment,
                 ''Stats'' := enabled ''Stats'' Processor_Stats stats) \<and>
     collectorAgentPoolList p' =
       Map.empty(''AgentPool'' :=
         (if 0 < live
          then Some \<lparr>collector_Name = ''AgentPool'', collector_Processor = Processor_AgentPool,
                     scrapeTime = Some live, running = True,
                     AgentPoolIdList = AzureDevops_AgentPoolIdList (opts p)\<rparr>
          else None)) \<and>
     collectorQueryList p' =
       Map.empty(''Query'' :=
         (if 0 < query
          then Some \<lparr>collector_Name = ''Query'', collector_Processor = Processor_Query,
                     scrapeTime = Some query, running = True,
                     QueryList = AzureDevops_QueriesWithProjects (opts p)\<rparr>
          else None)) \<and>
     log_lines p' = log_lines p @ disabled ''General'' live @ disabled ''Project'' live
          @ disabled ''AgentPool'' live @ disabled ''LatestBuild'' live
          @ disabled ''Repository'' repository @ disabled ''PullRequest'' pullRequest
          @ disabled ''Build'' build @ disabled ''Release'' release
          @ disabled ''Deployment'' deployment @ disabled ''Stats'' stats
          @ disabled ''ResourceUsage'' resourceUsage @ disabled ''Query'' query"
  unfolding initMetricCollector_resolved [OF assms]
  by simp

theorem collectors_by_interval_witness:
  "\<exists>p'. initMetricCollector (startup_process\<lparr>opts := default_scrape_times startup_opts\<rparr>) = Returned p' \<and>
     collectorProjectList p' ''Deployment'' = None \<and>
     LogLine InfoLevel Map.empty ''collector[Deployment]: disabled'' \<in> set (log_lines p') \<and>
     collectorProjectList p' ''Build'' =
       Some \<lparr>collector_Name = ''Build'', collector_Processor = Processor_Build,
              scrapeTime = Some 600000000000, running = True\<rparr> \<and>
     collectorGeneralList p' ''ResourceUsage'' =
       Some \<lparr>collector_Name = ''ResourceUsage'', collector_Processor = Processor_ResourceUsage,
              scrapeTime = Some 1800000000000, running = True\<rparr>"
  using collectors_by_interval [of "startup_process\<lparr>opts := default_scrape_times startup_opts\<rparr>"
      30000000000 1800000000000 1800000000000 600000000000 1800000000000 0 1800000000000
      1800000000000 1800000000000]
  by (auto simp: default_scrape_times_eq startup_opts_def enabled_def disabled_def)

subsection \<open>The scrape intervals\<close>

text \<open>
  C5. The fallback of \<open>initArgparser\<close> resolves the nine scrape-interval options
  that may be unset, \<open>TimeProjects\<close>, \<open>TimeRepository\<close>, \<open>TimePullRequest\<close>,
  \<open>TimeBuild\<close>, \<open>TimeRelease\<close>, \<open>TimeDeployment\<close>, \<open>TimeStats\<close>,
  \<open>TimeResourceUsage\<close> and \<open>TimeQuery\<close>: each is set after the fallback, to the one
  default interval when it was unset and to its own value otherwise, and the default
  itself is unchanged. The tenth, the live interval \<open>TimeLive\<close>, is not part of the
  fallback: the collectors read it without a check for nil, as an option that the parser
  always sets. So, the live interval being set by the parser, no interval option is
  unset when \<open>initArgparser\<close> has returned. The fallback runs once, in
  \<open>initArgparser\<close>; running it again would change nothing, and the initialisation of
  the collectors, which follows, leaves the options as they are.
\<close>

theorem scrape_intervals_resolved:
  "Scrape_TimeProjects (default_scrape_times cfg) =
     Some (case Scrape_TimeProjects cfg of None \<Rightarrow> Scrape_Time cfg | Some t \<Rightarrow> t) \<and>
   Scrape_TimeRepository (default_scrape_times cfg) =
     Some (case Scrape_TimeRepository cfg of None \<Rightarrow> Scrape_Time cfg | Some t \<Rightarrow> t) \<and>
   Scrape_TimePullRequest (default_scrape_times cfg) =
     Some (case Scrape_TimePullRequest cfg of None \<Rightarrow> Scrape_Time cfg | Some t \<Rightarrow> t) \<and>
   Scrape_TimeBuild (default_scrape_times cfg) =
     Some (case Scrape_TimeBuild cfg of None \<Rightarrow> Scrape_Time cfg | Some t \<Rightarrow> t) \<and>
   Scrape_TimeRelease (default_scrape_times cfg) =
     Some (case Scrape_TimeRelease cfg of None \<Rightarrow> Scrape_Time cfg | Some t \<Rightarrow> t) \<and>
   Scrape_TimeDeployment (default_scrape_times cfg) =
     Some (case Scrape_TimeDeployment cfg of None \<Rightarrow> Scrape_Time cfg | Some t \<Rightarrow> t) \<and>
   Scrape_TimeStats (default_scrape_times cfg) =
     Some (case Scrape_TimeStats cfg of None \<Rightarrow> Scrape_Time cfg | Some t \<Rightarrow> t) \<and>
   Scrape_TimeResourceUsage (default_scrape_times cfg) =
     Some (case Scrape_TimeResourceUsage cfg of None \<Rightarrow> Scrape_Time cfg | Some t \<Rightarrow> t) \<and>
   Scrape_TimeQuery (default_scrape_times cfg) =
     Some (case Scrape_TimeQuery cfg of None \<Rightarrow> Scrape_Time cfg | Some t \<Rightarrow> t) \<and>
   Scrape_TimeLive (default_scrape_times cfg) = Scrape_TimeLive cfg \<and>
   Scrape_Time (default_scrape_times cfg) = Scrape_Time cfg \<and>
   default_scrape_times (default_scrape_times cfg) = default_scrape_times cfg \<and>
   (initArgparser env p = Returned p' \<longrightarrow>
      opts p' = default_scrape_times
        ((Parse_opts env)\<lparr>AzureDevops_AccessToken := AzureDevops_AccessToken (opts p')\<rparr>)) \<and>
   (Scrape_TimeLive (Parse_opts env) = Some live \<and> initArgparser env p = Returned p' \<longrightarrow>
      Scrape_TimeLive (opts p') = Some live \<and>
      Scrape_TimeProjects (opts p') \<noteq> None \<and> Scrape_TimeRepository (opts p') \<noteq> None \<and>
      Scrape_TimePullRequest (opts p') \<noteq> None \<and> Scrape_TimeBuild (opts p') \<noteq> None \<and>
      Scrape_TimeRelease (opts p') \<noteq> None \<and> Scrape_TimeDeployment (opts p') \<noteq> None \<and>
      Scrape_TimeStats (opts p') \<noteq> None \<and> Scrape_TimeResourceUsage (opts p') \<noteq> None \<and>
      Scrape_TimeQuery (opts p') \<noteq> None) \<and>
   (initMetricCollector p' = Returned p'' \<longrightarrow> opts p'' = opts p')"
proof -
  have r: "opts p' = default_scrape_times
        ((Parse_opts env)\<lparr>AzureDevops_AccessToken := AzureDevops_AccessToken (opts p')\<rparr>)"
    if "initArgparser env p = Returned p'"
  proof -
    from that have "after_parse env (p\<lparr>opts := Parse_opts env\<rparr>) = Returned p'"
      by (simp add: initArgparser_Returned)
    from after_parse_Returned [OF this] obtain p1 where
      l: "load_access_token env (configure_logger (p\<lparr>opts := Parse_opts env\<rparr>)) = Returned p1"
      and p': "p' = p1\<lparr>opts := default_scrape_times (opts p1)\<rparr>"
      by blast
    from load_access_token_Returned(2) [OF l] obtain token where
      "opts p1 = (Parse_opts env)\<lparr>AzureDevops_AccessToken := token\<rparr>"
      by auto
    with p' show ?thesis
      by simp
  qed
  have s: "Scrape_TimeLive (opts p') = Some live \<and>
      Scrape_TimeProjects (opts p') \<noteq> None \<and> Scrape_TimeRepository (opts p') \<noteq> None \<and>
      Scrape_TimePullRequest (opts p') \<noteq> None \<and> Scrape_TimeBuild (opts p') \<noteq> None \<and>
      Scrape_TimeRelease (opts p') \<noteq> None \<and> Scrape_TimeDeployment (opts p') \<noteq> None \<and>
      Scrape_TimeStats (opts p') \<noteq> None \<and> Scrape_TimeResourceUsage (opts p') \<noteq> None \<and>
      Scrape_TimeQuery (opts p') \<noteq> None"
    if "Scrape_TimeLive (Parse_opts env) = Some live" "initArgparser env p = Returned p'"
  proof -
    let ?cfg = "(Parse_opts env)\<lparr>AzureDevops_AccessToken := AzureDevops_AccessToken (opts p')\<rparr>"
    have "Scrape_TimeLive (default_scrape_times ?cfg) = Some live"
      and "Scrape_TimeProjects (default_scrape_times ?cfg) \<noteq> None"
      and "Scrape_TimeRepository (default_scrape_times ?cfg) \<noteq> None"
      and "Scrape_TimePullRequest (default_scrape_times ?cfg) \<noteq> None"
      and "Scrape_TimeBuild (default_scrape_times ?cfg) \<noteq> None"
      and "Scrape_TimeRelease (default_scrape_times ?cfg) \<noteq> None"
      and "Scrape_TimeDeployment (default_scrape_times ?cfg) \<noteq> None"
      and "Scrape_TimeStats (default_scrape_times ?cfg) \<noteq> None"
      and "Scrape_TimeResourceUsage (default_scrape_times ?cfg) \<noteq> None"
      and "Scrape_TimeQuery (default_scrape_times ?cfg) \<noteq> None"
      using that(1) by (simp_all add: default_scrape_times_eq)
    with r [OF that(2)] show ?thesis
      by simp
  qed
  have i: "default_scrape_times (default_scrape_times cfg) = default_scrape_times cfg"
    by (simp add: default_scrape_times_eq)
  have "Scrape_TimeProjects (default_scrape_times cfg) =
     Some (case Scrape_TimeProjects cfg of None \<Rightarrow> Scrape_Time cfg | Some t \<Rightarrow> t)"
    and "Scrape_TimeRepository (default_scrape_times cfg) =
     Some (case Scrape_TimeRepository cfg of None \<Rightarrow> Scrape_Time cfg | Some t \<Rightarrow> t)"
    and "Scrape_TimePullRequest (default_scrape_times cfg) =
     Some (case Scrape_TimePullRequest cfg of None \<Rightarrow> Scrape_Time cfg | Some t \<Rightarrow> t)"
    and "Scrape_TimeBuild (default_scrape_times cfg) =
     Some (case Scrape_TimeBuild cfg of None \<Rightarrow> Scrape_Time cfg | Some t \<Rightarrow> t)"
    and "Scrape_TimeRelease (default_scrape_times cfg) =
     Some (case Scrape_TimeRelease cfg of None \<Rightarrow> Scrape_Time cfg | Some t \<Rightarrow> t)"
    and "Scrape_TimeDeployment (default_scrape_times cfg) =
     Some (case Scrape_TimeDeployment cfg of None \<Rightarrow> Scrape_Time cfg | Some t \<Rightarrow> t)"
    and "Scrape_TimeStats (default_scrape_times cfg) =
     Some (case Scrape_TimeStats cfg of None \<Rightarrow> Scrape_Time cfg | Some t \<Rightarrow> t)"
    and "Scrape_TimeResourceUsage (default_scrape_times cfg) =
     Some (case Scrape_TimeResourceUsage cfg of None \<Rightarrow> Scrape_Time cfg | Some t \<Rightarrow> t)"
    and "Scrape_TimeQuery (default_scrape_times cfg) =
     Some (case Scrape_TimeQuery cfg of None \<Rightarrow> Scrape_Time cfg | Some t \<Rightarrow> t)"
    and "Scrape_TimeLive (default_scrape_times cfg) = Scrape_TimeLive cfg"
    and "Scrape_Time (default_scrape_times cfg) = Scrape_Time cfg"
    by (simp_all add: default_scrape_times_eq split: option.splits)
  with r s i initMetricCollector_opts [of p' p''] show ?thesis
    by blast
qed

theorem scrape_intervals_resolved_witness:
  "Scrape_TimeLive startup_opts = Some 30000000000 \<and>
   (\<exists>p' p''. initArgparser startup_env startup_process = Returned p' \<and>
      opts p' = default_scrape_times (startup_opts\<lparr>AzureDevops_AccessToken := ''s3cr3t''\<rparr>) \<and>
      Scrape_TimeProjects (opts p') = Some 1800000000000 \<and>
      Scrape_TimeRepository (opts p') = Some 1800000000000 \<and>
      Scrape_TimePullRequest (opts p') = Some 1800000000000 \<and>
      Scrape_TimeBuild (opts p') = Some 600000000000 \<and>
      Scrape_TimeRelease (opts p') = Some 1800000000000 \<and>
      Scrape_TimeDeployment (opts p') = Some 0 \<and>
      Scrape_TimeStats (opts p') = Some 1800000000000 \<and>
      Scrape_TimeResourceUsage (opts p') = Some 1800000000000 \<and>
      Scrape_TimeQuery (opts p') = Some 1800000000000 \<and>
      Scrape_TimeLive (opts p') = Some 30000000000 \<and>
      initMetricCollector p' = Returned p'' \<and> opts p'' = opts p')"
proof -
  let ?p' = "(log_Info (''reading access token from file '' @ [CHR 0x22] @ ''/run/secrets/token'' @ [CHR 0x22])
                     (configure_logger (startup_process\<lparr>opts := startup_opts\<rparr>)))
                   \<lparr>opts := default_scrape_times (startup_opts\<lparr>AzureDevops_AccessToken := ''s3cr3t''\<rparr>)\<rparr>"
  let ?cfg = "startup_opts\<lparr>AzureDevops_AccessToken := ''s3cr3t''\<rparr>"
  have ret: "initArgparser startup_env startup_process = Returned ?p'"
    using startup_returns [of startup_opts]
    by (simp add: startup_env_simps startup_opts_simps Count_def)
  have live: "Scrape_TimeLive (Parse_opts startup_env) = Some 30000000000"
    by (simp add: startup_env_simps startup_opts_def)
  have o: "Scrape_TimeProjects ?cfg = None" "Scrape_TimeRepository ?cfg = None"
    "Scrape_TimePullRequest ?cfg = None" "Scrape_TimeBuild ?cfg = Some 600000000000"
    "Scrape_TimeRelease ?cfg = None" "Scrape_TimeDeployment ?cfg = Some 0"
    "Scrape_TimeStats ?cfg = None" "Scrape_TimeResourceUsage ?cfg = None"
    "Scrape_TimeQuery ?cfg = None" "Scrape_TimeLive ?cfg = Some 30000000000"
    "Scrape_Time ?cfg = 1800000000000"
    by (simp_all add: startup_opts_def)
  have "Scrape_TimeLive (opts ?p') = Some 30000000000"
    and "Scrape_TimeRepository (opts ?p') = Some 1800000000000"
    and "Scrape_TimePullRequest (opts ?p') = Some 1800000000000"
    and "Scrape_TimeBuild (opts ?p') = Some 600000000000"
    and "Scrape_TimeRelease (opts ?p') = Some 1800000000000"
    and "Scrape_TimeDeployment (opts ?p') = Some 0"
    and "Scrape_TimeStats (opts ?p') = Some 1800000000000"
    and "Scrape_TimeResourceUsage (opts ?p') = Some 1800000000000"
    and "Scrape_TimeQuery (opts ?p') = Some 1800000000000"
    by (simp_all add: default_scrape_times_eq startup_opts_def)
  from initMetricCollector_resolved [OF this]
  obtain p'' where run: "initMetricCollector ?p' = Returned p''"
    by blast
  from scrape_intervals_resolved [of ?cfg startup_env startup_process ?p' 30000000000 p''] ret live o run
  have "opts ?p' = default_scrape_times ?cfg \<and>
      Scrape_TimeProjects (opts ?p') = Some 1800000000000 \<and>
      Scrape_TimeRepository (opts ?p') = Some 1800000000000 \<and>
      Scrape_TimePullRequest (opts ?p') = Some 1800000000000 \<and>
      Scrape_TimeBuild (opts ?p') = Some 600000000000 \<and>
      Scrape_TimeRelease (opts ?p') = Some 1800000000000 \<and>
      Scrape_TimeDeployment (opts ?p') = Some 0 \<and>
      Scrape_TimeStats (opts ?p') = Some 1800000000000 \<and>
      Scrape_TimeResourceUsage (opts ?p') = Some 1800000000000 \<and>
      Scrape_TimeQuery (opts ?p') = Some 1800000000000 \<and>
      Scrape_TimeLive (opts ?p') = Some 30000000000 \<and>
      opts p'' = opts ?p'"
    by (simp add: startup_env_simps)
  with ret run have "\<exists>p' p''. initArgparser startup_env startup_process = Returned p' \<and>
      opts p' = default_scrape_times (startup_opts\<lparr>AzureDevops_AccessToken := ''s3cr3t''\<rparr>) \<and>
      Scrape_TimeProjects (opts p') = Some 1800000000000 \<and>
      Scrape_TimeRepository (opts p') = Some 1800000000000 \<and>
      Scrape_TimePullRequest (opts p') = Some 1800000000000 \<and>
      Scrape_TimeBuild (opts p') = Some 600000000000 \<and>
      Scrape_TimeRelease (opts p') = Some 1800000000000 \<and>
      Scrape_TimeDeployment (opts p') = Some 0 \<and>
      Scrape_TimeStats (opts p') = Some 1800000000000 \<and>
      Scrape_TimeResourceUsage (opts p') = Some 1800000000000 \<and>
      Scrape_TimeQuery (opts p') = Some 1800000000000 \<and>
      Scrape_TimeLive (opts p') = Some 30000000000 \<and>
      initMetricCollector p' = Returned p'' \<and> opts p'' = opts p'"
    by blast
  with live show ?thesis
    by (simp add: startup_env_simps)
qed

section \<open>Properties of the HTTP endpoints\<close>

text \<open>
  C8. For every GET request to \<open>/healthz\<close> or \<open>/readyz\<close> the reply has status 200
  and the body \<open>Ok\<close>, whatever the handler of \<open>/metrics\<close>, and so whatever the
  state of the Registry, of the collectors and of the remote backend; on a connection
  that cannot be written to, the status is 200 all the same and the failed write is
  logged.
\<close>

theorem health_endpoints_constant:
  assumes "Method r = ''GET''"
    and "URL_Path r = ''/healthz'' \<or> URL_Path r = ''/readyz''"
  shows "ServeHTTP handler (new_response r None) r lg =
           Some (\<lparr>wroteHeader = True, statusCode = 200, written = ''Ok'', request_Method = ''GET'',
                  conn_failure = None\<rparr>, lg) \<and>
         (\<exists>w. ServeHTTP handler (new_response r (Some err)) r lg =
                  Some (w, lg @ [entry_Error Map.empty err]) \<and>
              wroteHeader w \<and> statusCode w = 200) \<and>
         ServeHTTP handler w0 r lg = ServeHTTP handler' w0 r lg"
  using assms
  by (auto simp: ServeHTTP_def healthz_def readyz_def Fprint_def WriteHeader_def new_response_def Let_def)

theorem health_endpoints_constant_witness:
  "ServeHTTP (\<lambda>w r. w\<lparr>statusCode := 500\<rparr>)
     (new_response \<lparr>Method = ''GET'', URL_Path = ''/healthz''\<rparr> None)
     \<lparr>Method = ''GET'', URL_Path = ''/healthz''\<rparr> [] =
     Some (\<lparr>wroteHeader = True, statusCode = 200, written = ''Ok'', request_Method = ''GET'',
            conn_failure = None\<rparr>, []) \<and>
   ServeHTTP (\<lambda>w r. w\<lparr>statusCode := 500\<rparr>)
     (new_response \<lparr>Method = ''GET'', URL_Path = ''/readyz''\<rparr> None)
     \<lparr>Method = ''GET'', URL_Path = ''/readyz''\<rparr> [] =
     Some (\<lparr>wroteHeader = True, statusCode = 200, written = ''Ok'', request_Method = ''GET'',
            conn_failure = None\<rparr>, [])"
  using health_endpoints_constant [of "\<lparr>Method = ''GET'', URL_Path = ''/healthz''\<rparr>"
      "\<lambda>w r. w\<lparr>statusCode := 500\<rparr>" "[]"]
    health_endpoints_constant [of "\<lparr>Method = ''GET'', URL_Path = ''/readyz''\<rparr>"
      "\<lambda>w r. w\<lparr>statusCode := 500\<rparr>" "[]"]
  by simp

end
